theory Spec2Isabelle
  imports Complex_Main
begin

section \<open>Persistence store (databaseService.ts)\<close>

text \<open>
  The four SQL tables are lists of rows in insertion order.  Timestamps
  (\<open>created_at\<close>, \<open>updated_at\<close>) are wall-clock values and are left out.  Every
  identifier that the source obtains from \<open>uuidv4()\<close> is an argument of the
  operation that stores it; the \<open>PRIMARY KEY\<close> constraint, which only a repeated
  identifier would violate, is not modelled.  The statements of the in-memory
  database and the write of its file are taken to succeed, so the operations
  return plain values.  JavaScript numbers that hold a confidence are
  rationals; versions, sequence numbers and counts are integers.
\<close>

datatype status = pending | judged | in_argument

datatype side = SideA | SideB

record case_row =
  c_id :: string
  c_case_type :: string
  c_jurisdiction :: string
  c_status :: status

record side_data =
  summary :: string
  documents :: "string list"
  evidence :: "string list"

record case_detail_row =
  d_id :: string
  d_case_id :: string
  d_side :: side
  d_data :: side_data

record JudgmentRecord =
  j_id :: string
  j_case_id :: string
  j_verdict :: string
  j_reasoning :: string
  j_legal_basis :: "string list"
  j_confidence :: rat
  j_version :: int

record ArgumentRecord =
  a_id :: string
  a_case_id :: string
  a_side :: side
  a_argument :: string
  a_response :: string
  a_strengthens :: "string option"
  a_weakens :: "string option"
  a_uncertainty_remains :: "string option"
  a_provisional_note :: "string option"
  a_reconsidered :: bool
  a_sequence_number :: int

record Database =
  cases :: "case_row list"
  case_details :: "case_detail_row list"
  judgments :: "JudgmentRecord list"
  arguments :: "ArgumentRecord list"

record CaseView =
  v_id :: string
  v_caseType :: string
  v_jurisdiction :: string
  v_status :: status
  v_sideA :: "side_data option"
  v_sideB :: "side_data option"

definition empty_db :: Database where
  "empty_db = \<lparr>cases = [], case_details = [], judgments = [], arguments = []\<rparr>"

text \<open>\<open>UPDATE cases SET status = ? WHERE id = ?\<close>\<close>

definition set_status :: "string \<Rightarrow> status \<Rightarrow> case_row list \<Rightarrow> case_row list" where
  "set_status caseId st rows =
     map (\<lambda>c. if c_id c = caseId then c\<lparr>c_status := st\<rparr> else c) rows"

text \<open>
  \<open>createCase\<close>: one row in \<open>cases\<close> with status \<open>pending\<close>, then the two detail
  rows.  \<open>caseId\<close>, \<open>idA\<close> and \<open>idB\<close> are the three results of \<open>uuidv4()\<close>.
\<close>

definition createCase ::
  "Database \<Rightarrow> string \<Rightarrow> string \<Rightarrow> string \<Rightarrow> string \<Rightarrow> string \<Rightarrow> side_data \<Rightarrow> side_data
     \<Rightarrow> string \<times> Database" where
  "createCase db caseId idA idB caseType jurisdiction sideA sideB =
     (caseId,
      db\<lparr>cases := cases db @
            [\<lparr>c_id = caseId, c_case_type = caseType, c_jurisdiction = jurisdiction,
              c_status = pending\<rparr>],
         case_details := case_details db @
            [\<lparr>d_id = idA, d_case_id = caseId, d_side = SideA, d_data = sideA\<rparr>,
             \<lparr>d_id = idB, d_case_id = caseId, d_side = SideB, d_data = sideB\<rparr>]\<rparr>)"

text \<open>
  \<open>getCaseById\<close>: the first row of \<open>cases\<close> with the id, or null.  The
  \<open>forEach\<close> over the detail rows overwrites \<open>sideA\<close>/\<open>sideB\<close>, so the last
  matching row of each side is the one returned.
\<close>

definition last_detail :: "side \<Rightarrow> case_detail_row list \<Rightarrow> side_data option" where
  "last_detail sd rows =
     (case filter (\<lambda>d. d_side d = sd) rows of
        [] \<Rightarrow> None
      | x # xs \<Rightarrow> Some (d_data (last (x # xs))))"

definition getCaseById :: "Database \<Rightarrow> string \<Rightarrow> CaseView option" where
  "getCaseById db caseId =
     (case find (\<lambda>c. c_id c = caseId) (cases db) of
        None \<Rightarrow> None
      | Some caseRow \<Rightarrow>
          (let details = filter (\<lambda>d. d_case_id d = caseId) (case_details db)
           in Some \<lparr>v_id = c_id caseRow, v_caseType = c_case_type caseRow,
                     v_jurisdiction = c_jurisdiction caseRow, v_status = c_status caseRow,
                     v_sideA = last_detail SideA details,
                     v_sideB = last_detail SideB details\<rparr>))"

definition getCase :: "Database \<Rightarrow> string \<Rightarrow> CaseView option" where
  "getCase db caseId = getCaseById db caseId"

text \<open>
  \<open>saveJudgment\<close>: the parameter \<open>version\<close> has the default 1, taken when the
  caller passes none.  The row is appended and the status of the case is set to
  \<open>judged\<close>, whatever it was.
\<close>

definition saveJudgment ::
  "Database \<Rightarrow> string \<Rightarrow> string \<Rightarrow> string \<Rightarrow> string \<Rightarrow> string list \<Rightarrow> rat \<Rightarrow> int option
     \<Rightarrow> string \<times> Database" where
  "saveJudgment db judgmentId caseId verdict reasoning legalBasis confidence version =
     (judgmentId,
      db\<lparr>judgments := judgments db @
            [\<lparr>j_id = judgmentId, j_case_id = caseId, j_verdict = verdict,
              j_reasoning = reasoning, j_legal_basis = legalBasis,
              j_confidence = confidence,
              j_version = (case version of None \<Rightarrow> 1 | Some v \<Rightarrow> v)\<rparr>],
         cases := set_status caseId judged (cases db)\<rparr>)"

text \<open>
  \<open>ORDER BY\<close> is a stable sort of the matching rows; SQL leaves the order of
  rows with equal keys open, here they keep their insertion order.
\<close>

definition judgments_of :: "Database \<Rightarrow> string \<Rightarrow> JudgmentRecord list" where
  "judgments_of db caseId = filter (\<lambda>j. j_case_id j = caseId) (judgments db)"

definition getLatestJudgment :: "Database \<Rightarrow> string \<Rightarrow> JudgmentRecord option" where
  "getLatestJudgment db caseId =
     (case sort_key (\<lambda>j. - j_version j) (judgments_of db caseId) of
        [] \<Rightarrow> None
      | row # rest \<Rightarrow> Some row)"

definition getJudgments :: "Database \<Rightarrow> string \<Rightarrow> JudgmentRecord list" where
  "getJudgments db caseId = sort_key j_version (judgments_of db caseId)"

text \<open>\<open>x || null\<close> on an optional string: undefined and the empty string give null.\<close>

definition or_null :: "string option \<Rightarrow> string option" where
  "or_null x = (case x of None \<Rightarrow> None | Some s \<Rightarrow> if s = [] then None else Some s)"

definition saveArgument ::
  "Database \<Rightarrow> string \<Rightarrow> string \<Rightarrow> side \<Rightarrow> string \<Rightarrow> string \<Rightarrow> bool \<Rightarrow> int
     \<Rightarrow> string option \<Rightarrow> string option \<Rightarrow> string option \<Rightarrow> string option
     \<Rightarrow> string \<times> Database" where
  "saveArgument db argumentId caseId sd argument response reconsidered sequenceNumber
       strengthens weakens uncertaintyRemains provisionalNote =
     (argumentId,
      db\<lparr>arguments := arguments db @
            [\<lparr>a_id = argumentId, a_case_id = caseId, a_side = sd, a_argument = argument,
              a_response = response, a_strengthens = or_null strengthens,
              a_weakens = or_null weakens,
              a_uncertainty_remains = or_null uncertaintyRemains,
              a_provisional_note = or_null provisionalNote,
              a_reconsidered = reconsidered, a_sequence_number = sequenceNumber\<rparr>],
         cases := set_status caseId in_argument (cases db)\<rparr>)"

definition arguments_of :: "Database \<Rightarrow> string \<Rightarrow> ArgumentRecord list" where
  "arguments_of db caseId = filter (\<lambda>a. a_case_id a = caseId) (arguments db)"

definition getArguments :: "Database \<Rightarrow> string \<Rightarrow> ArgumentRecord list" where
  "getArguments db caseId = sort_key a_sequence_number (arguments_of db caseId)"

definition getArgumentCount :: "Database \<Rightarrow> string \<Rightarrow> nat" where
  "getArgumentCount db caseId = length (arguments_of db caseId)"


section \<open>Results of the language-model service (llmService.ts)\<close>

text \<open>
  \<open>Judgment\<close> and \<open>ArgumentResponse\<close> as the interfaces declare them, without the
  \<open>timestamp\<close> (a clock value).  An optional field is an \<open>option\<close>: \<open>None\<close> is a
  property that is undefined, which the JSON body of a reply then leaves out.
\<close>

record Judgment =
  verdict :: string
  reasoning :: string
  legalBasis :: "string list"
  confidence :: rat

record ArgumentResponse =
  response :: string
  strengthens :: "string option"
  weakens :: "string option"
  uncertaintyRemains :: "string option"
  reconsidered :: bool
  updatedReasoning :: "string option"
  provisionalNote :: "string option"
  ar_confidence :: rat

subsection \<open>JSON values and the two schemas\<close>

text \<open>
  A parsed JSON value.  An object is the list of its properties, each key once
  (\<open>JSON.parse\<close> keeps the last of a repeated key).  \<open>JSON.parse\<close> and
  \<open>ajv.errorsText\<close> belong to the runtime and are parameters of the parsers.
\<close>

datatype json =
    JNull
  | JBool bool
  | JNumber rat
  | JString string
  | JArray "json list"
  | JObject "(string \<times> json) list"

record runtime =
  JSON_parse :: "string \<Rightarrow> string + json"
  errorsText :: "json \<Rightarrow> string"

text \<open>
  The part of JSON Schema the two schemas use: \<open>type\<close> string, boolean, number
  with \<open>minimum\<close> and \<open>maximum\<close>, array with \<open>items\<close>, object with \<open>properties\<close>,
  \<open>required\<close> and \<open>additionalProperties\<close>, and \<open>nullable: true\<close>.
\<close>

datatype schema =
    TString
  | TBoolean
  | TNumber rat rat
  | TArray schema
  | Nullable schema
  | TObject "(string \<times> schema) list" "string list" bool

fun validate :: "schema \<Rightarrow> json \<Rightarrow> bool" where
  "validate TString j = (case j of JString s \<Rightarrow> True | _ \<Rightarrow> False)"
| "validate TBoolean j = (case j of JBool b \<Rightarrow> True | _ \<Rightarrow> False)"
| "validate (TNumber lo hi) j = (case j of JNumber x \<Rightarrow> lo \<le> x \<and> x \<le> hi | _ \<Rightarrow> False)"
| "validate (TArray items) j =
     (case j of JArray xs \<Rightarrow> list_all (validate items) xs | _ \<Rightarrow> False)"
| "validate (Nullable sc) j = (j = JNull \<or> validate sc j)"
| "validate (TObject props required additional) j =
     (case j of
        JObject kvs \<Rightarrow>
          list_all (\<lambda>k. map_of kvs k \<noteq> None) required
          \<and> list_all (\<lambda>p. case map_of kvs (fst p) of
                              None \<Rightarrow> True
                            | Some v \<Rightarrow> validate (snd p) v) props
          \<and> (additional \<or> list_all (\<lambda>kv. fst kv \<in> set (map fst props)) kvs)
      | _ \<Rightarrow> False)"

definition judgmentSchema :: schema where
  "judgmentSchema =
     TObject
       [(''verdict'', TString),
        (''reasoning'', TString),
        (''legalBasis'', Nullable (TArray TString)),
        (''confidence'', Nullable (TNumber 0 100))]
       [''verdict'', ''reasoning'']
       True"

definition argumentSchema :: schema where
  "argumentSchema =
     TObject
       [(''response'', TString),
        (''strengthens'', Nullable TString),
        (''weakens'', Nullable TString),
        (''uncertaintyRemains'', Nullable TString),
        (''reconsidered'', Nullable TBoolean),
        (''updatedReasoning'', Nullable TString),
        (''provisionalNote'', Nullable TString),
        (''confidence'', Nullable (TNumber 0 100))]
       [''response'']
       True"

definition validateJudgment :: "json \<Rightarrow> bool" where
  "validateJudgment parsed = validate judgmentSchema parsed"

definition validateArgument :: "json \<Rightarrow> bool" where
  "validateArgument parsed = validate argumentSchema parsed"

subsection \<open>Reading properties of the parsed object\<close>

text \<open>
  \<open>parsed.k\<close> is \<open>None\<close> when the property is undefined.  \<open>truthy\<close> is the
  JavaScript truth value that \<open>||\<close> tests.  The readers \<open>as_string\<close>,
  \<open>as_strings\<close>, \<open>as_number\<close> and \<open>as_bool\<close> are applied after validation, where
  the value has the type they expect; their other branch is never taken then.
\<close>

definition property :: "json \<Rightarrow> string \<Rightarrow> json option" where
  "property parsed k = (case parsed of JObject kvs \<Rightarrow> map_of kvs k | _ \<Rightarrow> None)"

definition truthy :: "json option \<Rightarrow> bool" where
  "truthy v =
     (case v of
        None \<Rightarrow> False
      | Some JNull \<Rightarrow> False
      | Some (JBool b) \<Rightarrow> b
      | Some (JNumber x) \<Rightarrow> x \<noteq> 0
      | Some (JString s) \<Rightarrow> s \<noteq> []
      | Some (JArray xs) \<Rightarrow> True
      | Some (JObject kvs) \<Rightarrow> True)"

definition as_string :: "json option \<Rightarrow> string" where
  "as_string v = (case v of Some (JString s) \<Rightarrow> s | _ \<Rightarrow> [])"

definition as_strings :: "json option \<Rightarrow> string list" where
  "as_strings v = (case v of Some (JArray xs) \<Rightarrow> map (\<lambda>x. as_string (Some x)) xs | _ \<Rightarrow> [])"

definition as_number :: "json option \<Rightarrow> rat" where
  "as_number v = (case v of Some (JNumber x) \<Rightarrow> x | _ \<Rightarrow> 0)"

definition as_bool :: "json option \<Rightarrow> bool" where
  "as_bool v = (case v of Some (JBool b) \<Rightarrow> b | _ \<Rightarrow> False)"

definition optional_string :: "json option \<Rightarrow> string option" where
  "optional_string v = (case v of Some (JString s) \<Rightarrow> Some s | _ \<Rightarrow> None)"

subsection \<open>Extraction and parsing\<close>

text \<open>
  \<open>response.match(/\{[\s\S]*\}/)\<close>: the match starts at the first \<open>{\<close> and the
  starred class is greedy, so it ends at the last \<open>}\<close> of the text; there is no
  match when no \<open>}\<close> follows the first \<open>{\<close>.
\<close>

definition jsonMatch :: "string \<Rightarrow> string option" where
  "jsonMatch raw =
     (case dropWhile (\<lambda>c. c \<noteq> CHR ''{'') raw of
        [] \<Rightarrow> None
      | open_brace # rest \<Rightarrow>
          (case dropWhile (\<lambda>c. c \<noteq> CHR ''}'') (rev rest) of
             [] \<Rightarrow> None
           | close_brace # middle \<Rightarrow> Some (open_brace # rev middle @ [close_brace])))"

text \<open>The object literal that \<open>parseJudgmentResponse\<close> returns.\<close>

definition judgment_from :: "json \<Rightarrow> Judgment" where
  "judgment_from parsed =
     \<lparr>verdict = as_string (property parsed ''verdict''),
      reasoning = as_string (property parsed ''reasoning''),
      legalBasis =
        (if truthy (property parsed ''legalBasis'')
         then as_strings (property parsed ''legalBasis'') else []),
      confidence =
        (if truthy (property parsed ''confidence'')
         then as_number (property parsed ''confidence'') else 50)\<rparr>"

definition parseJudgment_try :: "runtime \<Rightarrow> string \<Rightarrow> string + Judgment" where
  "parseJudgment_try rt raw =
     (case jsonMatch raw of
        None \<Rightarrow> Inl ''No JSON found in response''
      | Some m \<Rightarrow>
         (case JSON_parse rt m of
            Inl e \<Rightarrow> Inl e
          | Inr parsed \<Rightarrow>
             if validateJudgment parsed then Inr (judgment_from parsed)
             else Inl (''Invalid judgment schema: '' @ errorsText rt parsed)))"

definition parseJudgmentResponse :: "runtime \<Rightarrow> string \<Rightarrow> string + Judgment" where
  "parseJudgmentResponse rt raw =
     (case parseJudgment_try rt raw of
        Inl msg \<Rightarrow> Inl (''Failed to parse judgment response: '' @ msg)
      | Inr judgment \<Rightarrow> Inr judgment)"

text \<open>
  The object literal that \<open>parseArgumentResponse\<close> returns has the four
  properties \<open>response\<close>, \<open>reconsidered\<close>, \<open>updatedReasoning\<close> and \<open>confidence\<close>;
  the other properties of the interface are not set.
\<close>

definition argumentResponse_from :: "json \<Rightarrow> ArgumentResponse" where
  "argumentResponse_from parsed =
     \<lparr>response = as_string (property parsed ''response''),
      strengthens = None,
      weakens = None,
      uncertaintyRemains = None,
      reconsidered =
        (if truthy (property parsed ''reconsidered'')
         then as_bool (property parsed ''reconsidered'') else False),
      updatedReasoning = optional_string (property parsed ''updatedReasoning''),
      provisionalNote = None,
      ar_confidence =
        (if truthy (property parsed ''confidence'')
         then as_number (property parsed ''confidence'') else 50)\<rparr>"

definition parseArgument_try :: "runtime \<Rightarrow> string \<Rightarrow> string + ArgumentResponse" where
  "parseArgument_try rt raw =
     (case jsonMatch raw of
        None \<Rightarrow> Inl ''No JSON found in response''
      | Some m \<Rightarrow>
         (case JSON_parse rt m of
            Inl e \<Rightarrow> Inl e
          | Inr parsed \<Rightarrow>
             if validateArgument parsed then Inr (argumentResponse_from parsed)
             else Inl (''Invalid argument schema: '' @ errorsText rt parsed)))"

definition parseArgumentResponse :: "runtime \<Rightarrow> string \<Rightarrow> string + ArgumentResponse" where
  "parseArgumentResponse rt raw =
     (case parseArgument_try rt raw of
        Inl msg \<Rightarrow> Inl ''Failed to parse argument response''
      | Inr argumentResponse \<Rightarrow> Inr argumentResponse)"

subsection \<open>Generation with retries\<close>

text \<open>
  The call of the configured provider (\<open>generateWithGemini\<close>, \<open>generateWithClaude\<close>,
  \<open>generateWithOpenAI\<close>, \<open>generateWithGroq\<close>) is the environment: \<open>backend n\<close> is
  what the call of attempt \<open>n\<close> does, \<open>Inl\<close> the message of the error it throws,
  \<open>Inr\<close> the text it returns.  Each function returns the trace of what it did,
  a provider call or a \<open>setTimeout\<close> wait in milliseconds, with its result.
\<close>

datatype event = Call nat | Sleep nat

text \<open>\<open>s.includes(sub)\<close>, a substring test\<close>

fun str_includes :: "string \<Rightarrow> string \<Rightarrow> bool" where
  "str_includes [] sub = (sub = [])"
| "str_includes (c # cs) sub = (take (length sub) (c # cs) = sub \<or> str_includes cs sub)"

definition judgment_attempt :: "runtime \<Rightarrow> (nat \<Rightarrow> string + string) \<Rightarrow> nat \<Rightarrow> string + Judgment" where
  "judgment_attempt rt backend attempt =
     (case backend attempt of
        Inl e \<Rightarrow> Inl e
      | Inr responseText \<Rightarrow> parseJudgmentResponse rt responseText)"

function generateJudgment_loop ::
  "runtime \<Rightarrow> (nat \<Rightarrow> string + string) \<Rightarrow> nat \<Rightarrow> nat \<Rightarrow> string option
     \<Rightarrow> event list \<times> string option \<times> Judgment option" where
  "generateJudgment_loop rt backend maxRetries attempt lastError =
     (if attempt \<le> maxRetries then
        (case judgment_attempt rt backend attempt of
           Inr judgment \<Rightarrow> ([Call attempt], lastError, Some judgment)
         | Inl msg \<Rightarrow>
            (let wait = (if attempt < maxRetries \<and> str_includes msg ''parse''
                         then [Sleep 1000] else []);
                 later = generateJudgment_loop rt backend maxRetries (attempt + 1) (Some msg)
             in (Call attempt # wait @ fst later, snd later)))
      else ([], lastError, None))"
  by pat_completeness auto
termination
  by (relation "measure (\<lambda>(rt, backend, maxRetries, attempt, lastError).
                  maxRetries + 1 - attempt)") auto

definition last_message :: "string option \<Rightarrow> string" where
  "last_message lastError = (case lastError of None \<Rightarrow> ''undefined'' | Some m \<Rightarrow> m)"

definition generateJudgment ::
  "runtime \<Rightarrow> (nat \<Rightarrow> string + string) \<Rightarrow> event list \<times> (string + Judgment)" where
  "generateJudgment rt backend =
     (case generateJudgment_loop rt backend 2 1 None of
        (evs, lastError, Some judgment) \<Rightarrow> (evs, Inr judgment)
      | (evs, lastError, None) \<Rightarrow>
          (evs, Inl (''Failed to generate judgment after 2 attempts: ''
                       @ last_message lastError)))"

text \<open>\<open>processArgument\<close> has one \<open>try\<close> with one provider call.\<close>

definition processArgument ::
  "runtime \<Rightarrow> (nat \<Rightarrow> string + string) \<Rightarrow> event list \<times> (string + ArgumentResponse)" where
  "processArgument rt backend =
     (case (case backend 1 of
              Inl e \<Rightarrow> Inl e
            | Inr responseText \<Rightarrow> parseArgumentResponse rt responseText) of
        Inl e \<Rightarrow> ([Call 1], Inl ''Failed to process argument'')
      | Inr argumentResponse \<Rightarrow> ([Call 1], Inr argumentResponse))"

function generateFinalVerdict_loop ::
  "runtime \<Rightarrow> (nat \<Rightarrow> string + string) \<Rightarrow> nat \<Rightarrow> nat \<Rightarrow> string option
     \<Rightarrow> event list \<times> string option \<times> Judgment option" where
  "generateFinalVerdict_loop rt backend maxRetries attempt lastError =
     (if attempt \<le> maxRetries then
        (case judgment_attempt rt backend attempt of
           Inr finalVerdict \<Rightarrow> ([Call attempt], lastError, Some finalVerdict)
         | Inl msg \<Rightarrow>
            (let wait = (if attempt < maxRetries then [Sleep 1000] else []);
                 later = generateFinalVerdict_loop rt backend maxRetries (attempt + 1)
                           (Some msg)
             in (Call attempt # wait @ fst later, snd later)))
      else ([], lastError, None))"
  by pat_completeness auto
termination
  by (relation "measure (\<lambda>(rt, backend, maxRetries, attempt, lastError).
                  maxRetries + 1 - attempt)") auto

definition generateFinalVerdict ::
  "runtime \<Rightarrow> (nat \<Rightarrow> string + string) \<Rightarrow> event list \<times> (string + Judgment)" where
  "generateFinalVerdict rt backend =
     (case generateFinalVerdict_loop rt backend 2 1 None of
        (evs, lastError, Some finalVerdict) \<Rightarrow> (evs, Inr finalVerdict)
      | (evs, lastError, None) \<Rightarrow>
          (evs, Inl (''Failed to generate final verdict after 2 attempts: ''
                       @ last_message lastError)))"

section \<open>Cache service (cacheService.ts)\<close>

text \<open>
  The Redis server is a map from keys to the stored string with the TTL it was
  written with, and a flag saying whether a command sent now reaches it; a
  command that does not reach it rejects and changes nothing.  A stored string
  is \<open>Json v\<close>, the text \<open>JSON.stringify(v)\<close>, or \<open>NotJson\<close>, a text that
  \<open>JSON.parse\<close> rejects.  Expiry after the TTL is an event of the environment
  (\<open>Expire\<close> below).  The service itself has the two fields of the class:
  whether \<open>client\<close> is set, and \<open>isConnected\<close>.
\<close>

datatype 'v stored = Json 'v | NotJson

record Redis =
  entries :: "string \<rightharpoonup> (nat \<times> Judgment stored)"
  reachable :: bool

record CacheService =
  client :: bool
  isConnected :: bool

definition client_get :: "Redis \<Rightarrow> string \<Rightarrow> string + (nat \<times> Judgment stored) option" where
  "client_get r key = (if reachable r then Inr (entries r key) else Inl ''ECONNREFUSED'')"

definition client_setEx :: "Redis \<Rightarrow> string \<Rightarrow> nat \<Rightarrow> Judgment \<Rightarrow> string + Redis" where
  "client_setEx r key ttlSeconds v =
     (if reachable r then Inr (r\<lparr>entries := (entries r)(key \<mapsto> (ttlSeconds, Json v))\<rparr>)
      else Inl ''ECONNREFUSED'')"

definition client_del :: "Redis \<Rightarrow> string \<Rightarrow> string + Redis" where
  "client_del r key =
     (if reachable r then Inr (r\<lparr>entries := (entries r)(key := None)\<rparr>)
      else Inl ''ECONNREFUSED'')"

text \<open>
  \<open>connect\<close>: without a configured host the service stays disconnected with no
  client; otherwise the client is created, and \<open>isConnected\<close> is set by the
  \<open>connect\<close> event when the connection succeeds and cleared in the \<open>catch\<close> when
  it fails.
\<close>

definition connect :: "bool \<Rightarrow> bool \<Rightarrow> CacheService \<Rightarrow> CacheService" where
  "connect configured succeeds cs =
     (if configured then \<lparr>client = True, isConnected = succeeds\<rparr>
      else cs\<lparr>isConnected := False\<rparr>)"

text \<open>
  The three operations.  Each returns a sum, \<open>Inl\<close> for an exception that would
  reach the caller; the body of the \<open>try\<close> is a function of its own and the
  \<open>catch\<close> is the case distinction on its result.
\<close>

definition get_try :: "Redis \<Rightarrow> string \<Rightarrow> string + Judgment option" where
  "get_try r key =
     (case client_get r key of
        Inl e \<Rightarrow> Inl e
      | Inr None \<Rightarrow> Inr None
      | Inr (Some (ttl, NotJson)) \<Rightarrow> Inl ''SyntaxError''
      | Inr (Some (ttl, Json v)) \<Rightarrow> Inr (Some v))"

definition cache_get :: "CacheService \<Rightarrow> Redis \<Rightarrow> string \<Rightarrow> string + Judgment option" where
  "cache_get cs r key =
     (if isConnected cs \<and> client cs then
        (case get_try r key of Inl e \<Rightarrow> Inr None | Inr v \<Rightarrow> Inr v)
      else Inr None)"

definition cache_set ::
  "CacheService \<Rightarrow> Redis \<Rightarrow> string \<Rightarrow> Judgment \<Rightarrow> nat \<Rightarrow> string + Redis" where
  "cache_set cs r key v ttlSeconds =
     (if isConnected cs \<and> client cs then
        (case client_setEx r key ttlSeconds v of Inl e \<Rightarrow> Inr r | Inr r' \<Rightarrow> Inr r')
      else Inr r)"

definition cache_delete :: "CacheService \<Rightarrow> Redis \<Rightarrow> string \<Rightarrow> string + Redis" where
  "cache_delete cs r key =
     (if isConnected cs \<and> client cs then
        (case client_del r key of Inl e \<Rightarrow> Inr r | Inr r' \<Rightarrow> Inr r')
      else Inr r)"

text \<open>
  \<open>generateCaseKey({ caseId })\<close>: the prefix and the hexadecimal SHA-256 digest
  of the JSON text of the object; \<open>digest\<close> is that digest as a function of the
  case id.
\<close>

definition generateCaseKey :: "(string \<Rightarrow> string) \<Rightarrow> string \<Rightarrow> string" where
  "generateCaseKey digest caseId = ''case:judgment:'' @ digest caseId"

section \<open>Routes (routes/cases.ts)\<close>

text \<open>
  The state of the server is the database, the cache service and the Redis
  server.  A handler takes the state, the request and the results of the
  calls it makes to the outside (the language-model service, \<open>uuidv4\<close>), and
  returns the HTTP status with the body, and the new state.  The \<open>catch\<close> of a
  handler answers 500; what was written before the exception stays written.
\<close>

record app =
  db :: Database
  cacheService :: CacheService
  redis :: Redis

datatype body =
    ErrorBody string
  | CaseCreatedBody string
  | CaseBody CaseView
  | JudgmentBody Judgment bool
  | ArgumentResponseBody ArgumentResponse int
  | ArgumentsBody "ArgumentRecord list" nat int
  | FinalVerdictBody Judgment

type_synonym reply = "nat \<times> body"

definition MAX_ARGUMENTS :: nat where
  "MAX_ARGUMENTS = 5"

text \<open>
  A field of a request body is absent or a string; \<open>falsy\<close> is \<open>!x\<close> on such a
  field.
\<close>

definition falsy :: "string option \<Rightarrow> bool" where
  "falsy x = (case x of None \<Rightarrow> True | Some s \<Rightarrow> s = [])"

text \<open>
  \<open>POST /\<close>.  The uploaded documents arrive as the texts extracted from them
  and the evidence as the arrays parsed from the form fields; \<open>caseId\<close>, \<open>idA\<close>
  and \<open>idB\<close> are the identifiers \<open>createCase\<close> draws.
\<close>

definition post_case ::
  "app \<Rightarrow> string option \<Rightarrow> string option \<Rightarrow> string option \<Rightarrow> string option
     \<Rightarrow> string list \<Rightarrow> string list \<Rightarrow> string list \<Rightarrow> string list
     \<Rightarrow> string \<Rightarrow> string \<Rightarrow> string \<Rightarrow> reply \<times> app" where
  "post_case s caseType jurisdiction sideASummary sideBSummary
       sideADocs sideBDocs sideAEvidence sideBEvidence caseId idA idB =
     (if falsy caseType \<or> falsy jurisdiction \<or> falsy sideASummary \<or> falsy sideBSummary
      then ((400, ErrorBody ''Missing required fields''), s)
      else
        (let (cid, db') =
               createCase (db s) caseId idA idB (the caseType) (the jurisdiction)
                 \<lparr>summary = the sideASummary, documents = sideADocs,
                   evidence = sideAEvidence\<rparr>
                 \<lparr>summary = the sideBSummary, documents = sideBDocs,
                   evidence = sideBEvidence\<rparr>
         in ((201, CaseCreatedBody cid), s\<lparr>db := db'\<rparr>)))"

definition get_case :: "app \<Rightarrow> string \<Rightarrow> reply \<times> app" where
  "get_case s caseId =
     (case getCaseById (db s) caseId of
        None \<Rightarrow> ((404, ErrorBody ''Case not found''), s)
      | Some caseData \<Rightarrow> ((200, CaseBody caseData), s))"

text \<open>
  \<open>POST /:caseId/judgment\<close>.  \<open>llm\<close> is the outcome of
  \<open>llmService.generateJudgment\<close>, awaited only when the cache misses and the case
  exists.  \<open>saveJudgment\<close> is called without a version.
\<close>

definition post_judgment ::
  "(string \<Rightarrow> string) \<Rightarrow> app \<Rightarrow> string \<Rightarrow> string + Judgment \<Rightarrow> string \<Rightarrow> reply \<times> app" where
  "post_judgment digest s caseId llm judgmentId =
     (let cacheKey = generateCaseKey digest caseId in
      case cache_get (cacheService s) (redis s) cacheKey of
        Inl e \<Rightarrow> ((500, ErrorBody ''Failed to generate judgment''), s)
      | Inr (Some cachedJudgment) \<Rightarrow> ((200, JudgmentBody cachedJudgment True), s)
      | Inr None \<Rightarrow>
         (case getCaseById (db s) caseId of
            None \<Rightarrow> ((404, ErrorBody ''Case not found''), s)
          | Some caseData \<Rightarrow>
             (case llm of
                Inl e \<Rightarrow> ((500, ErrorBody ''Failed to generate judgment''), s)
              | Inr judgment \<Rightarrow>
                 (let (jid, db') =
                        saveJudgment (db s) judgmentId caseId (verdict judgment)
                          (reasoning judgment) (legalBasis judgment) (confidence judgment)
                          None;
                      s' = s\<lparr>db := db'\<rparr>
                  in case cache_set (cacheService s') (redis s') cacheKey judgment 3600 of
                       Inl e \<Rightarrow> ((500, ErrorBody ''Failed to generate judgment''), s')
                     | Inr r' \<Rightarrow>
                        ((200, JudgmentBody judgment False), s'\<lparr>redis := r'\<rparr>)))))"


text \<open>
  \<open>POST /:caseId/arguments\<close>.  \<open>sd\<close> and \<open>argument\<close> are the two body fields, \<open>llm\<close>
  is the outcome of \<open>llmService.processArgument\<close>.  The argument row is written
  first; the judgment row and the cache invalidation follow only under the
  guard \<open>reconsidered && updatedReasoning\<close>.
\<close>

definition side_of :: "string option \<Rightarrow> side" where
  "side_of sd = (if sd = Some ''A'' then SideA else SideB)"

definition post_arguments ::
  "(string \<Rightarrow> string) \<Rightarrow> app \<Rightarrow> string \<Rightarrow> string option \<Rightarrow> string option
     \<Rightarrow> string + ArgumentResponse \<Rightarrow> string \<Rightarrow> string \<Rightarrow> reply \<times> app" where
  "post_arguments digest s caseId sd argument llm argumentId judgmentId =
     (if falsy sd \<or> falsy argument \<or> (sd \<noteq> Some ''A'' \<and> sd \<noteq> Some ''B'')
      then ((400, ErrorBody
              ''Invalid request. Side must be A or B, and argument is required''), s)
      else
       (let argumentCount = getArgumentCount (db s) caseId in
        if argumentCount \<ge> MAX_ARGUMENTS
        then ((400, ErrorBody ''Maximum number of arguments (5) reached''), s)
        else
         (case (getCaseById (db s) caseId, getLatestJudgment (db s) caseId) of
            (Some caseData, Some latestJudgment) \<Rightarrow>
              (case llm of
                 Inl e \<Rightarrow> ((500, ErrorBody ''Failed to process argument''), s)
               | Inr argumentResponse \<Rightarrow>
                  (let (aid, db1) =
                         saveArgument (db s) argumentId caseId (side_of sd) (the argument)
                           (response argumentResponse) (reconsidered argumentResponse)
                           (int argumentCount + 1)
                           (strengthens argumentResponse) (weakens argumentResponse)
                           (uncertaintyRemains argumentResponse)
                           (provisionalNote argumentResponse);
                       s1 = s\<lparr>db := db1\<rparr>;
                       ok = ((200, ArgumentResponseBody argumentResponse
                                (int MAX_ARGUMENTS - (int argumentCount + 1))))
                   in if reconsidered argumentResponse
                         \<and> \<not> falsy (updatedReasoning argumentResponse)
                      then
                        (let (jid, db2) =
                               saveJudgment (db s1) judgmentId caseId
                                 (j_verdict latestJudgment)
                                 (the (updatedReasoning argumentResponse))
                                 (j_legal_basis latestJudgment)
                                 (ar_confidence argumentResponse)
                                 (Some (j_version latestJudgment + 1));
                             s2 = s1\<lparr>db := db2\<rparr>;
                             cacheKey = generateCaseKey digest caseId
                         in case cache_delete (cacheService s2) (redis s2) cacheKey of
                              Inl e \<Rightarrow> ((500, ErrorBody ''Failed to process argument''), s2)
                            | Inr r' \<Rightarrow> (ok, s2\<lparr>redis := r'\<rparr>))
                      else (ok, s1)))
          | _ \<Rightarrow> ((404, ErrorBody ''Case or judgment not found''), s))))"

definition get_arguments :: "app \<Rightarrow> string \<Rightarrow> reply \<times> app" where
  "get_arguments s caseId =
     (let caseArguments = getArguments (db s) caseId;
          count = length caseArguments
      in ((200, ArgumentsBody caseArguments count (int MAX_ARGUMENTS - int count)), s))"

text \<open>
  \<open>POST /:caseId/final-verdict\<close>.  \<open>llm\<close> is the outcome of
  \<open>llmService.generateFinalVerdict\<close>.  The version of the new row is the number
  of judgments of the case plus one.
\<close>

definition post_final_verdict ::
  "(string \<Rightarrow> string) \<Rightarrow> app \<Rightarrow> string \<Rightarrow> string + Judgment \<Rightarrow> string \<Rightarrow> reply \<times> app" where
  "post_final_verdict digest s caseId llm judgmentId =
     (case getCase (db s) caseId of
        None \<Rightarrow> ((404, ErrorBody ''Case not found''), s)
      | Some caseData \<Rightarrow>
         (let js = getJudgments (db s) caseId;
              caseArguments = getArguments (db s) caseId
          in if length js = 0
             then ((400, ErrorBody
                     ''No initial judgment found. Generate judgment first.''), s)
             else
              (case llm of
                 Inl e \<Rightarrow> ((500, ErrorBody ''Failed to generate final verdict''), s)
               | Inr finalVerdict \<Rightarrow>
                  (let (jid, db') =
                         saveJudgment (db s) judgmentId caseId (verdict finalVerdict)
                           (reasoning finalVerdict) (legalBasis finalVerdict)
                           (confidence finalVerdict) (Some (int (length js) + 1));
                       s' = s\<lparr>db := db'\<rparr>;
                       cacheKey = generateCaseKey digest caseId
                   in case cache_delete (cacheService s') (redis s') cacheKey of
                        Inl e \<Rightarrow> ((500, ErrorBody ''Failed to generate final verdict''), s')
                      | Inr r' \<Rightarrow> ((200, FinalVerdictBody finalVerdict), s'\<lparr>redis := r'\<rparr>)))))"

section \<open>The server as a transition system\<close>

text \<open>
  One request, or one event of the environment of the cache: the start-up call
  of \<open>connect\<close>, the client's \<open>error\<close> and \<open>connect\<close> events with the handlers
  the service registers, a change of reachability of the Redis server, and the
  expiry of an entry.  \<open>step\<close> runs the handler of one request from its
  first statement to its reply, and \<open>run\<close> handles a list of requests one at
  a time, no handler overlapping another.  Handlers that overlap are the
  subject of the next section.
\<close>

datatype request =
    CreateCase "string option" "string option" "string option" "string option"
       "string list" "string list" "string list" "string list" string string string
  | GetCase string
  | GenerateJudgment string "string + Judgment" string
  | SubmitArgument string "string option" "string option" "string + ArgumentResponse"
       string string
  | GetArguments string
  | FinalVerdict string "string + Judgment" string
  | CacheConnect bool bool
  | OnError
  | OnConnect
  | SetReachable bool
  | Expire string

definition no_reply :: reply where
  "no_reply = (0, ErrorBody [])"

fun step :: "(string \<Rightarrow> string) \<Rightarrow> app \<Rightarrow> request \<Rightarrow> reply \<times> app" where
  "step digest s (CreateCase ct j sa sb da dbs ea eb cid ia ib) =
     post_case s ct j sa sb da dbs ea eb cid ia ib"
| "step digest s (GetCase cid) = get_case s cid"
| "step digest s (GenerateJudgment cid llm jid) = post_judgment digest s cid llm jid"
| "step digest s (SubmitArgument cid sd arg llm aid jid) =
     post_arguments digest s cid sd arg llm aid jid"
| "step digest s (GetArguments cid) = get_arguments s cid"
| "step digest s (FinalVerdict cid llm jid) = post_final_verdict digest s cid llm jid"
| "step digest s (CacheConnect configured succeeds) =
     (no_reply, s\<lparr>cacheService := connect configured succeeds (cacheService s)\<rparr>)"
| "step digest s OnError =
     (no_reply, s\<lparr>cacheService := (cacheService s)\<lparr>isConnected := False\<rparr>\<rparr>)"
| "step digest s OnConnect =
     (no_reply, s\<lparr>cacheService := (cacheService s)\<lparr>isConnected := True\<rparr>\<rparr>)"
| "step digest s (SetReachable b) = (no_reply, s\<lparr>redis := (redis s)\<lparr>reachable := b\<rparr>\<rparr>)"
| "step digest s (Expire key) =
     (no_reply, s\<lparr>redis := (redis s)\<lparr>entries := (entries (redis s))(key := None)\<rparr>\<rparr>)"

fun run :: "(string \<Rightarrow> string) \<Rightarrow> app \<Rightarrow> request list \<Rightarrow> app" where
  "run digest s [] = s"
| "run digest s (r # rs) = run digest (snd (step digest s r)) rs"

text \<open>The state at start-up: empty tables, no cache client, an empty Redis.\<close>

definition init :: app where
  "init = \<lparr>db = empty_db,
           cacheService = \<lparr>client = False, isConnected = False\<rparr>,
           redis = \<lparr>entries = Map.empty, reachable = True\<rparr>\<rparr>"


section \<open>Handlers that overlap\<close>

text \<open>
  The handlers are asynchronous: while one of them waits for the
  language-model service, the server takes up other requests.  The handler of
  \<open>POST /:caseId/arguments\<close> is split at its awaited call of
  \<open>processArgument\<close>: \<open>arguments_until_await\<close> is its statements up to the call,
  which validate the request and read the argument count, the case and the
  latest judgment; \<open>arguments_after_await\<close> is its statements after the call,
  which write with the values read before it.  What the handler holds across
  the await are its local constants.
\<close>

record suspended =
  h_caseId :: string
  h_side :: "string option"
  h_argument :: "string option"
  h_argumentCount :: nat
  h_latestJudgment :: JudgmentRecord

definition arguments_until_await ::
  "app \<Rightarrow> string \<Rightarrow> string option \<Rightarrow> string option \<Rightarrow> reply + suspended" where
  "arguments_until_await s caseId sd argument =
     (if falsy sd \<or> falsy argument \<or> (sd \<noteq> Some ''A'' \<and> sd \<noteq> Some ''B'')
      then Inl (400, ErrorBody
                  ''Invalid request. Side must be A or B, and argument is required'')
      else
       (let argumentCount = getArgumentCount (db s) caseId in
        if argumentCount \<ge> MAX_ARGUMENTS
        then Inl (400, ErrorBody ''Maximum number of arguments (5) reached'')
        else
         (case (getCaseById (db s) caseId, getLatestJudgment (db s) caseId) of
            (Some caseData, Some latestJudgment) \<Rightarrow>
              Inr \<lparr>h_caseId = caseId, h_side = sd, h_argument = argument,
                   h_argumentCount = argumentCount, h_latestJudgment = latestJudgment\<rparr>
          | _ \<Rightarrow> Inl (404, ErrorBody ''Case or judgment not found''))))"

definition arguments_after_await ::
  "(string \<Rightarrow> string) \<Rightarrow> app \<Rightarrow> suspended \<Rightarrow> string + ArgumentResponse \<Rightarrow> string \<Rightarrow> string
     \<Rightarrow> reply \<times> app" where
  "arguments_after_await digest s h llm argumentId judgmentId =
     (case llm of
        Inl e \<Rightarrow> ((500, ErrorBody ''Failed to process argument''), s)
      | Inr argumentResponse \<Rightarrow>
         (let (aid, db1) =
                saveArgument (db s) argumentId (h_caseId h) (side_of (h_side h))
                  (the (h_argument h))
                  (response argumentResponse) (reconsidered argumentResponse)
                  (int (h_argumentCount h) + 1)
                  (strengthens argumentResponse) (weakens argumentResponse)
                  (uncertaintyRemains argumentResponse)
                  (provisionalNote argumentResponse);
              s1 = s\<lparr>db := db1\<rparr>;
              ok = ((200, ArgumentResponseBody argumentResponse
                       (int MAX_ARGUMENTS - (int (h_argumentCount h) + 1))))
          in if reconsidered argumentResponse
                \<and> \<not> falsy (updatedReasoning argumentResponse)
             then
               (let (jid, db2) =
                      saveJudgment (db s1) judgmentId (h_caseId h)
                        (j_verdict (h_latestJudgment h))
                        (the (updatedReasoning argumentResponse))
                        (j_legal_basis (h_latestJudgment h))
                        (ar_confidence argumentResponse)
                        (Some (j_version (h_latestJudgment h) + 1));
                    s2 = s1\<lparr>db := db2\<rparr>;
                    cacheKey = generateCaseKey digest (h_caseId h)
                in case cache_delete (cacheService s2) (redis s2) cacheKey of
                     Inl e \<Rightarrow> ((500, ErrorBody ''Failed to process argument''), s2)
                   | Inr r' \<Rightarrow> (ok, s2\<lparr>redis := r'\<rparr>))
             else (ok, s1)))"

text \<open>
  The server with its suspended handlers.  \<open>Handle\<close> runs the handler of a
  request to its reply with nothing between; \<open>Arrive\<close> runs a submission up
  to its await, where it answers at once or joins the handlers that wait;
  \<open>Resume\<close> gives the handler at a position of the waiting list the outcome
  of its call and runs it to its reply, on the state the server has by then.
\<close>

record server =
  current :: app
  waiting :: "suspended list"

datatype activity =
    Handle request
  | Arrive string "string option" "string option"
  | Resume nat "string + ArgumentResponse" string string

fun serve :: "(string \<Rightarrow> string) \<Rightarrow> server \<Rightarrow> activity \<Rightarrow> reply \<times> server" where
  "serve digest sv (Handle r) =
     (fst (step digest (current sv) r), sv\<lparr>current := snd (step digest (current sv) r)\<rparr>)"
| "serve digest sv (Arrive caseId sd argument) =
     (case arguments_until_await (current sv) caseId sd argument of
        Inl answer \<Rightarrow> (answer, sv)
      | Inr h \<Rightarrow> (no_reply, sv\<lparr>waiting := waiting sv @ [h]\<rparr>))"
| "serve digest sv (Resume i llm argumentId judgmentId) =
     (if i < length (waiting sv)
      then (fst (arguments_after_await digest (current sv) (waiting sv ! i) llm
                   argumentId judgmentId),
            \<lparr>current = snd (arguments_after_await digest (current sv) (waiting sv ! i) llm
                              argumentId judgmentId),
             waiting = take i (waiting sv) @ drop (Suc i) (waiting sv)\<rparr>)
      else (no_reply, sv))"

fun serve_all :: "(string \<Rightarrow> string) \<Rightarrow> server \<Rightarrow> activity list \<Rightarrow> server" where
  "serve_all digest sv [] = sv"
| "serve_all digest sv (a # acts) = serve_all digest (snd (serve digest sv a)) acts"




section \<open>Observations and the wording of the specification\<close>

text \<open>The status that \<open>getCaseById\<close> reports for a case, when the case exists.\<close>

definition status_of :: "Database \<Rightarrow> string \<Rightarrow> status option" where
  "status_of d caseId =
     (case getCaseById d caseId of None \<Rightarrow> None | Some caseData \<Rightarrow> Some (v_status caseData))"

text \<open>
  The extraction as the specification words it, for comparison with
  \<open>jsonMatch\<close>: the first top-level \<open>{...}\<close> span, from the first \<open>{\<close> to the
  \<open>}\<close> that closes it, counting nested braces.
\<close>

fun span_to_close :: "nat \<Rightarrow> string \<Rightarrow> string option" where
  "span_to_close depth [] = None"
| "span_to_close depth (c # cs) =
     (if c = CHR ''}'' then
        (case depth of
           0 \<Rightarrow> Some [c]
         | Suc d \<Rightarrow> map_option ((#) c) (span_to_close d cs))
      else if c = CHR ''{'' then map_option ((#) c) (span_to_close (Suc depth) cs)
      else map_option ((#) c) (span_to_close depth cs))"

definition spec_first_top_level_span :: "string \<Rightarrow> string option" where
  "spec_first_top_level_span raw =
     (case dropWhile (\<lambda>c. c \<noteq> CHR ''{'') raw of
        [] \<Rightarrow> None
      | open_brace # rest \<Rightarrow> map_option ((#) open_brace) (span_to_close 0 rest))"

text \<open>
  The two schemas as the specification words them, for comparison with
  \<open>validateJudgment\<close> and \<open>validateArgument\<close>: a required field is present with
  its type; an optional field is absent, null, or present with its type.
\<close>

definition is_string :: "json \<Rightarrow> bool" where
  "is_string j = (case j of JString s \<Rightarrow> True | _ \<Rightarrow> False)"

definition is_boolean :: "json \<Rightarrow> bool" where
  "is_boolean j = (case j of JBool b \<Rightarrow> True | _ \<Rightarrow> False)"

definition is_string_list :: "json \<Rightarrow> bool" where
  "is_string_list j = (case j of JArray xs \<Rightarrow> list_all is_string xs | _ \<Rightarrow> False)"

definition is_number_within :: "rat \<Rightarrow> rat \<Rightarrow> json \<Rightarrow> bool" where
  "is_number_within lo hi j = (case j of JNumber x \<Rightarrow> lo \<le> x \<and> x \<le> hi | _ \<Rightarrow> False)"

definition required_field :: "(json \<Rightarrow> bool) \<Rightarrow> json option \<Rightarrow> bool" where
  "required_field P v = (case v of None \<Rightarrow> False | Some j \<Rightarrow> P j)"

definition optional_field :: "(json \<Rightarrow> bool) \<Rightarrow> json option \<Rightarrow> bool" where
  "optional_field P v = (case v of None \<Rightarrow> True | Some j \<Rightarrow> j = JNull \<or> P j)"

definition spec_judgment_shape :: "json \<Rightarrow> bool" where
  "spec_judgment_shape parsed =
     (case parsed of
        JObject kvs \<Rightarrow>
          required_field is_string (map_of kvs ''verdict'')
          \<and> required_field is_string (map_of kvs ''reasoning'')
          \<and> optional_field is_string_list (map_of kvs ''legalBasis'')
          \<and> optional_field (is_number_within 0 100) (map_of kvs ''confidence'')
      | _ \<Rightarrow> False)"

definition spec_argument_shape :: "json \<Rightarrow> bool" where
  "spec_argument_shape parsed =
     (case parsed of
        JObject kvs \<Rightarrow>
          required_field is_string (map_of kvs ''response'')
          \<and> optional_field is_string (map_of kvs ''strengthens'')
          \<and> optional_field is_string (map_of kvs ''weakens'')
          \<and> optional_field is_string (map_of kvs ''uncertaintyRemains'')
          \<and> optional_field is_boolean (map_of kvs ''reconsidered'')
          \<and> optional_field is_string (map_of kvs ''updatedReasoning'')
          \<and> optional_field is_string (map_of kvs ''provisionalNote'')
          \<and> optional_field (is_number_within 0 100) (map_of kvs ''confidence'')
      | _ \<Rightarrow> False)"

section \<open>Example data\<close>

text \<open>
  A case, a judgment and an evaluation used to run the handlers on concrete
  requests.  The digest of the examples is the identity.
\<close>

definition example_create :: request where
  "example_create =
     CreateCase (Some ''civil'') (Some ''India'') (Some ''Loan of $5000 not repaid'')
       (Some ''It was a gift'') [] [] [] [] ''case-1'' ''detail-a'' ''detail-b''"

definition example_judgment :: Judgment where
  "example_judgment =
     \<lparr>verdict = ''Side A appears to have the stronger position'',
      reasoning = ''The transfer looks like a loan'',
      legalBasis = [''Indian Contract Act 1872''],
      confidence = 55\<rparr>"

definition example_generate :: request where
  "example_generate = GenerateJudgment ''case-1'' (Inr example_judgment) ''judgment-1''"

definition example_evaluation :: ArgumentResponse where
  "example_evaluation =
     \<lparr>response = ''That is a good point'', strengthens = None, weakens = None,
      uncertaintyRemains = None, reconsidered = False, updatedReasoning = None,
      provisionalNote = None, ar_confidence = 55\<rparr>"

definition example_submit :: "string \<Rightarrow> request" where
  "example_submit argumentId =
     SubmitArgument ''case-1'' (Some ''A'') (Some ''Bank transfer receipt proves loan terms'')
       (Inr example_evaluation) argumentId ''judgment-unused''"

definition five_submissions :: "request list" where
  "five_submissions =
     [example_create, example_generate, example_submit ''a1'', example_submit ''a2'',
      example_submit ''a3'', example_submit ''a4'', example_submit ''a5'']"


definition connected_cache :: CacheService where
  "connected_cache = \<lparr>client = True, isConnected = True\<rparr>"

definition unreachable_redis :: Redis where
  "unreachable_redis =
     \<lparr>entries = [''case:judgment:case-1'' \<mapsto> (3600, Json example_judgment)],
      reachable = False\<rparr>"

definition reconsidering_evaluation :: ArgumentResponse where
  "reconsidering_evaluation =
     \<lparr>response = ''That is a good point'', strengthens = None, weakens = None,
      uncertaintyRemains = None, reconsidered = True,
      updatedReasoning = Some ''The receipt shifts my view'',
      provisionalNote = None, ar_confidence = 60\<rparr>"

definition example_reconsider :: request where
  "example_reconsider =
     SubmitArgument ''case-1'' (Some ''A'') (Some ''Bank transfer receipt proves loan terms'')
       (Inr reconsidering_evaluation) ''a1'' ''judgment-2''"

definition example_final :: Judgment where
  "example_final =
     \<lparr>verdict = ''I find that the transfer was a loan'',
      reasoning = ''The evidence establishes a loan'',
      legalBasis = [''Indian Contract Act 1872''],
      confidence = 85\<rparr>"

definition example_regenerate :: request where
  "example_regenerate = GenerateJudgment ''case-1'' (Inr example_judgment) ''judgment-3''"

definition example_final_verdict :: request where
  "example_final_verdict = FinalVerdict ''case-1'' (Inr example_final) ''judgment-4''"



text \<open>
  Texts a backend may return, and a runtime for them: its \<open>JSON.parse\<close> gives
  the value of each JSON text below and rejects every other text.
\<close>

definition judgment_body :: string where
  \<open>judgment_body = ''"draft": true, "verdict": "Side A prevails", "reasoning": "The receipt", "confidence": 0''\<close>

definition judgment_json :: string where
  "judgment_json = ''{'' @ judgment_body @ ''}''"

definition judgment_value :: json where
  "judgment_value =
     JObject [(''draft'', JBool True), (''verdict'', JString ''Side A prevails''),
              (''reasoning'', JString ''The receipt''), (''confidence'', JNumber 0)]"

definition judgment_text :: string where
  "judgment_text = ''Here is my assessment: '' @ judgment_json @ '' I hope this helps.''"

definition two_span_text :: string where
  "two_span_text = judgment_json @ '' Note: {this is provisional}''"

definition evaluation_json :: string where
  \<open>evaluation_json = ''{"response": "That is a good point", "strengthens": "Side A", "weakens": "Side B", "uncertaintyRemains": "Whether interest was agreed", "provisionalNote": "Not final"}''\<close>

definition evaluation_value :: json where
  "evaluation_value =
     JObject [(''response'', JString ''That is a good point''),
              (''strengthens'', JString ''Side A''), (''weakens'', JString ''Side B''),
              (''uncertaintyRemains'', JString ''Whether interest was agreed''),
              (''provisionalNote'', JString ''Not final'')]"

definition example_parse :: "string \<Rightarrow> string + json" where
  "example_parse m =
     (if m = judgment_json then Inr judgment_value
      else if m = evaluation_json then Inr evaluation_value
      else Inl ''Unexpected token'')"

definition example_runtime :: runtime where
  "example_runtime =
     \<lparr>JSON_parse = example_parse, errorsText = (\<lambda>parsed. ''data is invalid'')\<rparr>"

definition backend_returning :: "string \<Rightarrow> nat \<Rightarrow> string + string" where
  "backend_returning t attempt = Inr t"

definition backend_failing :: "string \<Rightarrow> nat \<Rightarrow> string + string" where
  "backend_failing msg attempt = Inl msg"

definition backend_failing_once :: "string \<Rightarrow> string \<Rightarrow> nat \<Rightarrow> string + string" where
  "backend_failing_once msg t attempt = (if attempt = 1 then Inl msg else Inr t)"





section \<open>The argument cap\<close>

text \<open>Which handlers touch the \<open>arguments\<close> table, and how.\<close>

lemma arguments_saveJudgment:
  "arguments (snd (saveJudgment d jid c v r lb cf ver)) = arguments d"
  by (simp add: saveJudgment_def)

lemma arguments_createCase:
  "arguments (snd (createCase d c ia ib ct j sa sb)) = arguments d"
  by (simp add: createCase_def)

lemma arguments_saveArgument:
  "\<exists>row. a_case_id row = c \<and> a_reconsidered row = rc \<and> a_sequence_number row = n
      \<and> arguments (snd (saveArgument d aid c sd arg resp rc n st wk un pn)) = arguments d @ [row]"
  by (simp add: saveArgument_def)

lemma arguments_post_case:
  "arguments (db (snd (post_case s ct j sa sb da dbs ea eb cid ia ib))) = arguments (db s)"
  by (simp add: post_case_def createCase_def Let_def split: prod.splits)

lemma arguments_post_judgment:
  "arguments (db (snd (post_judgment digest s c llm jid))) = arguments (db s)"
  by (simp add: post_judgment_def saveJudgment_def Let_def
           split: sum.splits option.splits prod.splits)

lemma arguments_post_final_verdict:
  "arguments (db (snd (post_final_verdict digest s c llm jid))) = arguments (db s)"
  by (simp add: post_final_verdict_def saveJudgment_def Let_def
           split: sum.splits option.splits prod.splits)

lemma arguments_post_arguments:
  "arguments (db (snd (post_arguments digest s c sd arg llm aid jid))) = arguments (db s)
   \<or> (getArgumentCount (db s) c < MAX_ARGUMENTS
       \<and> (\<exists>row. a_case_id row = c
             \<and> arguments (db (snd (post_arguments digest s c sd arg llm aid jid)))
                 = arguments (db s) @ [row]))"
  by (simp add: post_arguments_def saveJudgment_def saveArgument_def Let_def
           split: sum.splits option.splits prod.splits)


lemma arguments_step:
  "arguments (db (snd (step digest s r))) = arguments (db s)
   \<or> (\<exists>c row. getArgumentCount (db s) c < MAX_ARGUMENTS \<and> a_case_id row = c
          \<and> arguments (db (snd (step digest s r))) = arguments (db s) @ [row])"
proof (cases r)
  case (SubmitArgument c sd arg llm aid jid)
  then show ?thesis
    using arguments_post_arguments [of digest s c sd arg llm aid jid] by auto
qed (simp_all add: arguments_post_case arguments_post_judgment arguments_post_final_verdict
       get_case_def get_arguments_def Let_def split: option.splits)

lemma count_step:
  assumes "getArgumentCount (db s) caseId \<le> MAX_ARGUMENTS"
  shows "getArgumentCount (db (snd (step digest s r))) caseId \<le> MAX_ARGUMENTS"
  using arguments_step [of digest s r] assms
  by (auto simp: getArgumentCount_def arguments_of_def)

lemma count_run:
  "getArgumentCount (db s) caseId \<le> MAX_ARGUMENTS
   \<Longrightarrow> getArgumentCount (db (run digest s reqs)) caseId \<le> MAX_ARGUMENTS"
proof (induction reqs arbitrary: s)
  case Nil
  then show ?case by simp
next
  case (Cons r rs)
  then show ?case by (simp add: count_step)
qed



text \<open>
  The two halves of the submission handler make up the handler: with nothing
  between them they are \<open>post_arguments\<close>.
\<close>

lemma post_arguments_phases:
  "post_arguments digest s caseId sd arg llm aid jid
     = (case arguments_until_await s caseId sd arg of
          Inl answer \<Rightarrow> (answer, s)
        | Inr h \<Rightarrow> arguments_after_await digest s h llm aid jid)"
  by (auto simp: post_arguments_def arguments_until_await_def arguments_after_await_def
        Let_def case_prod_beta split: option.splits sum.splits)

lemma submit_is_arrive_then_resume:
  assumes "waiting sv = []"
  shows "serve_all digest sv [Arrive caseId sd arg, Resume 0 llm aid jid]
           = snd (serve digest sv (Handle (SubmitArgument caseId sd arg llm aid jid)))"
  using assms
  by (cases "arguments_until_await (current sv) caseId sd arg")
     (simp_all add: post_arguments_phases)

lemma serve_all_Handle:
  "serve_all digest sv (map Handle reqs)
     = sv\<lparr>current := run digest (current sv) reqs\<rparr>"
  by (induction reqs arbitrary: sv) simp_all






section \<open>The cache never throws\<close>

lemma cache_get_total: "\<exists>v. cache_get cs r key = Inr v"
  by (simp add: cache_get_def split: sum.splits)

lemma cache_set_total: "\<exists>r'. cache_set cs r key v ttl = Inr r'"
  by (simp add: cache_set_def split: sum.splits)

lemma cache_delete_total: "\<exists>r'. cache_delete cs r key = Inr r'"
  by (simp add: cache_delete_def split: sum.splits)

lemma cache_down:
  assumes "\<not> (isConnected cs \<and> client cs \<and> reachable r)"
  shows "cache_get cs r key = Inr None"
    and "cache_set cs r key v ttl = Inr r"
    and "cache_delete cs r key = Inr r"
  using assms
  by (auto simp: cache_get_def cache_set_def cache_delete_def get_try_def client_get_def
        client_setEx_def client_del_def)

text \<open>
  C8.  \<open>get\<close>, \<open>set\<close> and \<open>delete\<close> of the cache service return normally for
  every state of the service and of the Redis server, every key and every
  value.  When the service is not connected, has no client, or the server
  cannot be reached, \<open>get\<close> returns null and \<open>set\<close> and \<open>delete\<close> leave the
  store as it is; a stored text that is not JSON also reads as null.
\<close>

theorem cache_never_throws:
  "(\<exists>found. cache_get cs r key = Inr found)
   \<and> (\<exists>r'. cache_set cs r key v ttl = Inr r')
   \<and> (\<exists>r'. cache_delete cs r key = Inr r')
   \<and> (\<not> (isConnected cs \<and> client cs \<and> reachable r) \<longrightarrow>
        cache_get cs r key = Inr None
        \<and> cache_set cs r key v ttl = Inr r
        \<and> cache_delete cs r key = Inr r)
   \<and> (entries r key = Some (t, NotJson) \<longrightarrow> cache_get cs r key = Inr None)"
proof (intro conjI impI)
  show "entries r key = Some (t, NotJson) \<Longrightarrow> cache_get cs r key = Inr None"
    by (simp add: cache_get_def get_try_def client_get_def)
qed (simp_all add: cache_get_total cache_set_total cache_delete_total cache_down)

theorem cache_never_throws_witness:
  "\<not> (isConnected connected_cache \<and> client connected_cache \<and> reachable unreachable_redis)
   \<and> cache_get connected_cache unreachable_redis ''case:judgment:case-1'' = Inr None
   \<and> cache_set connected_cache unreachable_redis ''case:judgment:case-1'' example_judgment 3600
        = Inr unreachable_redis
   \<and> cache_delete connected_cache unreachable_redis ''case:judgment:case-1''
        = Inr unreachable_redis"
proof -
  have down: "\<not> (isConnected connected_cache \<and> client connected_cache
                 \<and> reachable unreachable_redis)"
    by (simp add: unreachable_redis_def)
  with cache_never_throws [of connected_cache unreachable_redis "''case:judgment:case-1''"
      example_judgment 3600]
  show ?thesis by blast
qed

section \<open>Judgment versions\<close>

text \<open>
  What the two queries return: \<open>getLatestJudgment\<close> is a row of the case whose
  version no other row of the case exceeds, and \<open>getJudgments\<close> is the rows of
  the case in ascending order of version.
\<close>

lemma getLatestJudgment_max:
  assumes "getLatestJudgment d caseId = Some row"
  shows "row \<in> set (judgments_of d caseId)"
    and "\<forall>j \<in> set (judgments_of d caseId). j_version j \<le> j_version row"
proof -
  let ?xs = "sort_key (\<lambda>j. - j_version j) (judgments_of d caseId)"
  from assms obtain rest where xs: "?xs = row # rest"
    by (auto simp: getLatestJudgment_def split: list.splits)
  have "row \<in> set ?xs" using xs by simp
  then show "row \<in> set (judgments_of d caseId)" by simp
  have "sorted (map (\<lambda>j. - j_version j) ?xs)" by simp
  with xs have "\<forall>j \<in> set rest. - j_version row \<le> - j_version j" by simp
  moreover have "set (judgments_of d caseId) = set ?xs" by simp
  ultimately show "\<forall>j \<in> set (judgments_of d caseId). j_version j \<le> j_version row"
    using xs by auto
qed

lemma getJudgments_sorted:
  "sorted (map j_version (getJudgments d caseId))"
  "set (getJudgments d caseId) = set (judgments_of d caseId)"
  "length (getJudgments d caseId) = length (judgments_of d caseId)"
  by (simp_all add: getJudgments_def)

text \<open>
  C1.  The versions of a case are not gapless and strictly increasing in every
  reachable state.  With no cache connected (the configuration at start-up),
  generating the judgment of a case twice stores two rows of version 1.  With
  a connected cache, a reconsideration invalidates the cached judgment, the
  next generation stores a second row of version 1 beside version 2, and the
  final verdict then takes version 4, the number of rows plus one, leaving 3
  out.
\<close>

theorem regeneration_repeats_version_1:
  "map j_version
     (getJudgments (db (run id init [example_create, example_generate, example_regenerate]))
        ''case-1'') = [1, 1]
   \<and> map j_version
       (getJudgments
          (db (run id init
                 [CacheConnect True True, example_create, example_generate,
                  example_reconsider, example_regenerate, example_final_verdict]))
          ''case-1'') = [1, 1, 2, 4]"
  by code_simp

section \<open>Reconsideration and the judgment it writes\<close>




section \<open>The status of a case\<close>

lemma find_set_status:
  "find (\<lambda>c. c_id c = k) (set_status caseId st rows)
     = (if k = caseId
        then map_option (\<lambda>c. c\<lparr>c_status := st\<rparr>) (find (\<lambda>c. c_id c = k) rows)
        else find (\<lambda>c. c_id c = k) rows)"
  by (induction rows) (auto simp: set_status_def)

lemma status_getCaseById:
  "status_of d k = map_option c_status (find (\<lambda>c. c_id c = k) (cases d))"
  by (simp add: status_of_def getCaseById_def Let_def split: option.splits)

lemma status_of_None:
  "status_of d k = None \<longleftrightarrow> getCaseById d k = None"
  by (simp add: status_of_def split: option.splits)

lemma find_append_fresh:
  "find P (xs @ [x]) = (case find P xs of None \<Rightarrow> (if P x then Some x else None) | Some y \<Rightarrow> Some y)"
  by (induction xs) auto

lemma status_createCase:
  "status_of (snd (createCase d caseId ia ib ct j sa sb)) k
     = (case status_of d k of
          None \<Rightarrow> (if k = caseId then Some pending else None)
        | Some st \<Rightarrow> Some st)"
  by (auto simp: status_getCaseById createCase_def find_append_fresh split: option.splits)

lemma getCaseById_None:
  "getCaseById d k = None \<longleftrightarrow> find (\<lambda>c. c_id c = k) (cases d) = None"
  by (simp add: getCaseById_def Let_def split: option.splits)

lemma status_saveJudgment:
  "status_of (snd (saveJudgment d jid caseId v r lb cf ver)) k
     = (if k = caseId then (if getCaseById d k = None then None else Some judged)
        else status_of d k)"
  by (cases "find (\<lambda>c. c_id c = k) (cases d)")
     (auto simp: status_getCaseById getCaseById_None saveJudgment_def find_set_status)

lemma status_saveArgument:
  "status_of (snd (saveArgument d aid caseId sd arg resp rc n st wk un pn)) k
     = (if k = caseId then (if getCaseById d k = None then None else Some in_argument)
        else status_of d k)"
  by (cases "find (\<lambda>c. c_id c = k) (cases d)")
     (auto simp: status_getCaseById getCaseById_None saveArgument_def find_set_status)

lemma exists_saveJudgment:
  "getCaseById (snd (saveJudgment d jid caseId v r lb cf ver)) k = None
     \<longleftrightarrow> getCaseById d k = None"
  by (simp add: getCaseById_None saveJudgment_def find_set_status)

lemma exists_saveArgument:
  "getCaseById (snd (saveArgument d aid caseId sd arg resp rc n st wk un pn)) k = None
     \<longleftrightarrow> getCaseById d k = None"
  by (simp add: getCaseById_None saveArgument_def find_set_status)

lemma rows_saveJudgment:
  "judgments_of (snd (saveJudgment d jid caseId v r lb cf ver)) k
     = (if k = caseId
        then judgments_of d k @
               [\<lparr>j_id = jid, j_case_id = caseId, j_verdict = v, j_reasoning = r,
                 j_legal_basis = lb, j_confidence = cf,
                 j_version = (case ver of None \<Rightarrow> 1 | Some n \<Rightarrow> n)\<rparr>]
        else judgments_of d k)"
  "arguments_of (snd (saveJudgment d jid caseId v r lb cf ver)) k = arguments_of d k"
  by (simp_all add: judgments_of_def arguments_of_def saveJudgment_def)

lemma rows_saveArgument:
  "judgments_of (snd (saveArgument d aid caseId sd arg resp rc n st wk un pn)) k
     = judgments_of d k"
  "length (arguments_of (snd (saveArgument d aid caseId sd arg resp rc n st wk un pn)) k)
     = (if k = caseId then Suc (length (arguments_of d k)) else length (arguments_of d k))"
  by (simp_all add: judgments_of_def arguments_of_def saveArgument_def)

text \<open>
  C4, as stated, fails: \<open>saveJudgment\<close> sets the status to \<open>judged\<close> on every
  call.  After one argument that is reconsidered, and after a final verdict
  that follows an argument, the case has a recorded argument and the status
  \<open>judged\<close>.
\<close>

theorem status_back_to_judged:
  "map c_status (cases (db (run id init [example_create, example_generate, example_reconsider])))
     = [judged]
   \<and> getArgumentCount (db (run id init [example_create, example_generate, example_reconsider]))
        ''case-1'' = 1
   \<and> map c_status
        (cases (db (run id init [example_create, example_generate, example_submit ''a1''])))
        = [in_argument]
   \<and> map c_status
        (cases (db (run id init [example_create, example_generate, example_submit ''a1'',
                                  example_final_verdict])))
        = [judged]"
  by code_simp

text \<open>
  C4, amended.  The status of a case records the kind of the last row written
  for it.  A case is created \<open>pending\<close>.  A generated judgment that is stored,
  a reconsideration and a final verdict each leave it \<open>judged\<close>, also when
  arguments have been recorded; a submission that writes no judgment leaves it
  \<open>in_argument\<close>.  A request or event that writes no judgment row and no
  argument row for the case leaves its status as it was.
\<close>

theorem status_is_last_write:
  "(getCaseById (db s) caseId = None
      \<and> fst (fst (post_case s ct j sa sb da dbs ea eb caseId ia ib)) = 201 \<longrightarrow>
      status_of (db (snd (post_case s ct j sa sb da dbs ea eb caseId ia ib))) caseId
        = Some pending)
   \<and> (fst (post_judgment digest s caseId llm jid) = (200, JudgmentBody jm False) \<longrightarrow>
        status_of (db (snd (post_judgment digest s caseId llm jid))) caseId
          = Some judged)
   \<and> (fst (fst (post_arguments digest s caseId sd arg (Inr r) aid jid)) = 200 \<longrightarrow>
        status_of (db (snd (post_arguments digest s caseId sd arg (Inr r) aid jid))) caseId
          = Some (if reconsidered r \<and> \<not> falsy (updatedReasoning r)
                  then judged else in_argument))
   \<and> (fst (fst (post_final_verdict digest s caseId llm jid)) = 200 \<longrightarrow>
        status_of (db (snd (post_final_verdict digest s caseId llm jid))) caseId
          = Some judged)
   \<and> (getCaseById (db s) caseId \<noteq> None
        \<and> judgments_of (db (snd (step digest s req))) caseId = judgments_of (db s) caseId
        \<and> arguments_of (db (snd (step digest s req))) caseId = arguments_of (db s) caseId \<longrightarrow>
        status_of (db (snd (step digest s req))) caseId
          = status_of (db s) caseId)"
proof (intro conjI impI)
  show "status_of (db (snd (post_case s ct j sa sb da dbs ea eb caseId ia ib))) caseId
        = Some pending"
    if "getCaseById (db s) caseId = None
        \<and> fst (fst (post_case s ct j sa sb da dbs ea eb caseId ia ib)) = 201"
    using that
    by (simp add: post_case_def Let_def case_prod_beta status_createCase
          status_of_None [symmetric] split: if_splits)
next
  show "status_of (db (snd (post_judgment digest s caseId llm jid))) caseId = Some judged"
    if "fst (post_judgment digest s caseId llm jid) = (200, JudgmentBody jm False)"
    using that
    by (auto simp: post_judgment_def Let_def case_prod_beta exists_saveJudgment exists_saveArgument status_saveJudgment
             split: if_splits sum.splits option.splits)
next
  show "status_of (db (snd (post_arguments digest s caseId sd arg (Inr r) aid jid))) caseId
        = Some (if reconsidered r \<and> \<not> falsy (updatedReasoning r) then judged else in_argument)"
    if "fst (fst (post_arguments digest s caseId sd arg (Inr r) aid jid)) = 200"
    using that
    by (auto simp: post_arguments_def Let_def case_prod_beta exists_saveJudgment exists_saveArgument status_saveJudgment status_saveArgument
             split: if_splits sum.splits option.splits)
next
  show "status_of (db (snd (post_final_verdict digest s caseId llm jid))) caseId
        = Some judged"
    if "fst (fst (post_final_verdict digest s caseId llm jid)) = 200"
    using that
    by (auto simp: post_final_verdict_def getCase_def Let_def case_prod_beta exists_saveJudgment exists_saveArgument status_saveJudgment
             split: if_splits sum.splits option.splits)
next
  show "status_of (db (snd (step digest s req))) caseId
          = status_of (db s) caseId"
    if h: "getCaseById (db s) caseId \<noteq> None
        \<and> judgments_of (db (snd (step digest s req))) caseId = judgments_of (db s) caseId
        \<and> arguments_of (db (snd (step digest s req))) caseId = arguments_of (db s) caseId"
  proof (cases req)
    case (CreateCase ct j sa sb da dbs ea eb cid ia ib)
    then show ?thesis
      using h
      by (auto simp: post_case_def Let_def case_prod_beta status_createCase
               status_of_None [symmetric] split: if_splits option.splits)
  next
    case (GenerateJudgment cid llm jid)
    then show ?thesis
      using h
      by (auto simp: post_judgment_def Let_def case_prod_beta status_saveJudgment
               rows_saveJudgment split: if_splits sum.splits option.splits)
  next
    case (SubmitArgument cid sd arg llm aid jid)
    then show ?thesis
      using h
      by (auto simp: post_arguments_def Let_def case_prod_beta status_saveJudgment
               status_saveArgument rows_saveJudgment rows_saveArgument
               dest!: arg_cong [where f = length]
               split: if_splits sum.splits option.splits)
  next
    case (FinalVerdict cid llm jid)
    then show ?thesis
      using h
      by (auto simp: post_final_verdict_def getCase_def Let_def case_prod_beta
               status_saveJudgment rows_saveJudgment
               split: if_splits sum.splits option.splits)
  qed (simp_all add: get_case_def get_arguments_def Let_def split: option.splits)
qed

theorem status_is_last_write_witness:
  "status_of (db (snd (post_case init (Some ''civil'') (Some ''India'')
       (Some ''Loan of $5000 not repaid'') (Some ''It was a gift'') [] [] [] []
       ''case-1'' ''detail-a'' ''detail-b''))) ''case-1'' = Some pending
   \<and> status_of (db (run id init [example_create, example_generate, example_submit ''a1'']))
        ''case-1'' = Some in_argument
   \<and> status_of (db (snd (post_arguments id
          (run id init [example_create, example_generate, example_submit ''a1''])
          ''case-1'' (Some ''B'') (Some ''No interest was ever agreed'')
          (Inr reconsidering_evaluation) ''a2'' ''judgment-2''))) ''case-1'' = Some judged
   \<and> status_of (db (snd (post_final_verdict id
          (run id init [example_create, example_generate, example_submit ''a1''])
          ''case-1'' (Inr example_final) ''judgment-4''))) ''case-1'' = Some judged
   \<and> status_of (db (snd (step id
          (run id init [example_create, example_generate, example_submit ''a1''])
          (GetArguments ''case-1'')))) ''case-1'' = Some in_argument"
proof -
  let ?s = "run id init [example_create, example_generate, example_submit ''a1'']"
  have fresh: "getCaseById (db init) ''case-1'' = None
     \<and> fst (fst (post_case init (Some ''civil'') (Some ''India'')
          (Some ''Loan of $5000 not repaid'') (Some ''It was a gift'') [] [] [] []
          ''case-1'' ''detail-a'' ''detail-b'')) = 201"
    by code_simp
  have now: "status_of (db ?s) ''case-1'' = Some in_argument"
    by code_simp
  have arg_ok: "fst (fst (post_arguments id ?s ''case-1'' (Some ''B'')
      (Some ''No interest was ever agreed'') (Inr reconsidering_evaluation)
      ''a2'' ''judgment-2'')) = 200"
    by code_simp
  have guard: "reconsidered reconsidering_evaluation
     \<and> \<not> falsy (updatedReasoning reconsidering_evaluation)"
    by code_simp
  have final_ok: "fst (fst (post_final_verdict id ?s ''case-1'' (Inr example_final)
      ''judgment-4'')) = 200"
    by code_simp
  have quiet: "getCaseById (db ?s) ''case-1'' \<noteq> None
     \<and> judgments_of (db (snd (step id ?s (GetArguments ''case-1'')))) ''case-1''
         = judgments_of (db ?s) ''case-1''
     \<and> arguments_of (db (snd (step id ?s (GetArguments ''case-1'')))) ''case-1''
         = arguments_of (db ?s) ''case-1''"
    by code_simp
  note created = status_is_last_write [where s = init and caseId = "''case-1''"
      and ct = "Some ''civil''" and j = "Some ''India''"
      and sa = "Some ''Loan of $5000 not repaid''" and sb = "Some ''It was a gift''"
      and da = "[]" and dbs = "[]" and ea = "[]" and eb = "[]"
      and ia = "''detail-a''" and ib = "''detail-b''"]
  note later = status_is_last_write [where s = ?s and caseId = "''case-1''" and digest = id
      and sd = "Some ''B''" and arg = "Some ''No interest was ever agreed''"
      and r = reconsidering_evaluation and aid = "''a2''" and jid = "''judgment-2''"
      and req = "GetArguments ''case-1''"]
  note final = status_is_last_write [where s = ?s and caseId = "''case-1''" and digest = id
      and llm = "Inr example_final" and jid = "''judgment-4''"]
  from created fresh have "status_of (db (snd (post_case init (Some ''civil'') (Some ''India'')
       (Some ''Loan of $5000 not repaid'') (Some ''It was a gift'') [] [] [] []
       ''case-1'' ''detail-a'' ''detail-b''))) ''case-1'' = Some pending"
    by blast
  moreover from later arg_ok guard
  have "status_of (db (snd (post_arguments id ?s ''case-1'' (Some ''B'')
          (Some ''No interest was ever agreed'') (Inr reconsidering_evaluation)
          ''a2'' ''judgment-2''))) ''case-1'' = Some judged"
    by simp
  moreover from final final_ok
  have "status_of (db (snd (post_final_verdict id ?s ''case-1'' (Inr example_final)
          ''judgment-4''))) ''case-1'' = Some judged"
    by blast
  moreover from later quiet now
  have "status_of (db (snd (step id ?s (GetArguments ''case-1'')))) ''case-1''
          = Some in_argument"
    by simp
  ultimately show ?thesis using now by simp
qed

section \<open>Invalidation of the cached judgment\<close>

text \<open>
  C9, as stated, fails: \<open>delete\<close> swallows the failure of the Redis command, and
  does nothing while \<open>isConnected\<close> is false.  A judgment is generated and
  cached; the server cannot be reached (or the client has reported an error)
  while an argument is reconsidered; the handler answers 200 and the database
  holds version 2 with the new reasoning; once the server is back, \<open>get\<close> on
  the key of the case returns the judgment cached before the reconsideration.
\<close>

theorem stale_judgment_after_reconsideration:
  "fst (step id
          (run id init [CacheConnect True True, example_create, example_generate,
                        SetReachable False])
          example_reconsider)
     = (200, ArgumentResponseBody reconsidering_evaluation 4)
   \<and> map j_reasoning
        (getJudgments
           (db (run id init [CacheConnect True True, example_create, example_generate,
                             SetReachable False, example_reconsider, SetReachable True]))
           ''case-1'')
       = [''The transfer looks like a loan'', ''The receipt shifts my view'']
   \<and> fst (step id
          (run id init [CacheConnect True True, example_create, example_generate,
                        SetReachable False, example_reconsider, SetReachable True])
          example_regenerate)
       = (200, JudgmentBody example_judgment True)
   \<and> fst (step id
          (run id init [CacheConnect True True, example_create, example_generate,
                        OnError, example_reconsider, OnConnect])
          example_regenerate)
       = (200, JudgmentBody example_judgment True)"
  by code_simp

text \<open>
  C9, amended.  A submission that writes a reconsidered judgment, and a final
  verdict, issue the delete of the key of the case after the judgment row is
  written and before they answer 200.  When the service is connected with a
  client and the server can be reached at that moment, a \<open>get\<close> on the key in
  the state they leave returns null; otherwise the store is left as it was.
\<close>

theorem invalidation_when_cache_up:
  "(fst (fst (post_arguments digest s caseId sd arg (Inr r) aid jid)) = 200
      \<and> reconsidered r \<and> \<not> falsy (updatedReasoning r) \<longrightarrow>
      (if isConnected (cacheService s) \<and> client (cacheService s) \<and> reachable (redis s)
       then cache_get
              (cacheService (snd (post_arguments digest s caseId sd arg (Inr r) aid jid)))
              (redis (snd (post_arguments digest s caseId sd arg (Inr r) aid jid)))
              (generateCaseKey digest caseId) = Inr None
       else redis (snd (post_arguments digest s caseId sd arg (Inr r) aid jid)) = redis s))
   \<and> (fst (fst (post_final_verdict digest s caseId llm jid)) = 200 \<longrightarrow>
      (if isConnected (cacheService s) \<and> client (cacheService s) \<and> reachable (redis s)
       then cache_get
              (cacheService (snd (post_final_verdict digest s caseId llm jid)))
              (redis (snd (post_final_verdict digest s caseId llm jid)))
              (generateCaseKey digest caseId) = Inr None
       else redis (snd (post_final_verdict digest s caseId llm jid)) = redis s))"
proof (intro conjI impI)
  assume "fst (fst (post_arguments digest s caseId sd arg (Inr r) aid jid)) = 200
      \<and> reconsidered r \<and> \<not> falsy (updatedReasoning r)"
  then show "if isConnected (cacheService s) \<and> client (cacheService s) \<and> reachable (redis s)
       then cache_get
              (cacheService (snd (post_arguments digest s caseId sd arg (Inr r) aid jid)))
              (redis (snd (post_arguments digest s caseId sd arg (Inr r) aid jid)))
              (generateCaseKey digest caseId) = Inr None
       else redis (snd (post_arguments digest s caseId sd arg (Inr r) aid jid)) = redis s"
    by (auto simp: post_arguments_def Let_def case_prod_beta cache_delete_def client_del_def
          cache_get_def get_try_def client_get_def
          split: if_splits option.splits sum.splits)
next
  assume "fst (fst (post_final_verdict digest s caseId llm jid)) = 200"
  then show "if isConnected (cacheService s) \<and> client (cacheService s) \<and> reachable (redis s)
       then cache_get
              (cacheService (snd (post_final_verdict digest s caseId llm jid)))
              (redis (snd (post_final_verdict digest s caseId llm jid)))
              (generateCaseKey digest caseId) = Inr None
       else redis (snd (post_final_verdict digest s caseId llm jid)) = redis s"
    by (auto simp: post_final_verdict_def Let_def case_prod_beta cache_delete_def
          client_del_def cache_get_def get_try_def client_get_def
          split: if_splits option.splits sum.splits)
qed

theorem invalidation_when_cache_up_witness:
  "cache_get
     (cacheService (run id init [CacheConnect True True, example_create, example_generate]))
     (redis (run id init [CacheConnect True True, example_create, example_generate]))
     (generateCaseKey id ''case-1'') = Inr (Some example_judgment)
   \<and> cache_get
     (cacheService (snd (post_arguments id
        (run id init [CacheConnect True True, example_create, example_generate])
        ''case-1'' (Some ''A'') (Some ''Bank transfer receipt proves loan terms'')
        (Inr reconsidering_evaluation) ''a1'' ''judgment-2'')))
     (redis (snd (post_arguments id
        (run id init [CacheConnect True True, example_create, example_generate])
        ''case-1'' (Some ''A'') (Some ''Bank transfer receipt proves loan terms'')
        (Inr reconsidering_evaluation) ''a1'' ''judgment-2'')))
     (generateCaseKey id ''case-1'') = Inr None
   \<and> cache_get
     (cacheService (snd (post_final_verdict id
        (run id init [CacheConnect True True, example_create, example_generate])
        ''case-1'' (Inr example_final) ''judgment-4'')))
     (redis (snd (post_final_verdict id
        (run id init [CacheConnect True True, example_create, example_generate])
        ''case-1'' (Inr example_final) ''judgment-4'')))
     (generateCaseKey id ''case-1'') = Inr None"
proof -
  let ?s = "run id init [CacheConnect True True, example_create, example_generate]"
  have cached: "cache_get (cacheService ?s) (redis ?s) (generateCaseKey id ''case-1'')
      = Inr (Some example_judgment)"
    by code_simp
  have up: "isConnected (cacheService ?s) \<and> client (cacheService ?s) \<and> reachable (redis ?s)"
    by code_simp
  have arg_ok: "fst (fst (post_arguments id ?s ''case-1'' (Some ''A'')
      (Some ''Bank transfer receipt proves loan terms'') (Inr reconsidering_evaluation)
      ''a1'' ''judgment-2'')) = 200
      \<and> reconsidered reconsidering_evaluation
      \<and> \<not> falsy (updatedReasoning reconsidering_evaluation)"
    by code_simp
  have final_ok: "fst (fst (post_final_verdict id ?s ''case-1'' (Inr example_final)
      ''judgment-4'')) = 200"
    by code_simp
  note inst = invalidation_when_cache_up [where s = ?s and digest = id
      and caseId = "''case-1''" and sd = "Some ''A''"
      and arg = "Some ''Bank transfer receipt proves loan terms''"
      and r = reconsidering_evaluation and aid = "''a1''"
      and llm = "Inr example_final"]
  from inst [where jid = "''judgment-2''"] arg_ok up
  have "cache_get
     (cacheService (snd (post_arguments id ?s ''case-1'' (Some ''A'')
        (Some ''Bank transfer receipt proves loan terms'')
        (Inr reconsidering_evaluation) ''a1'' ''judgment-2'')))
     (redis (snd (post_arguments id ?s ''case-1'' (Some ''A'')
        (Some ''Bank transfer receipt proves loan terms'')
        (Inr reconsidering_evaluation) ''a1'' ''judgment-2'')))
     (generateCaseKey id ''case-1'') = Inr None"
    by simp
  moreover from inst [where jid = "''judgment-4''"] final_ok up
  have "cache_get
     (cacheService (snd (post_final_verdict id ?s ''case-1'' (Inr example_final)
        ''judgment-4'')))
     (redis (snd (post_final_verdict id ?s ''case-1'' (Inr example_final) ''judgment-4'')))
     (generateCaseKey id ''case-1'') = Inr None"
    by simp
  ultimately show ?thesis using cached by simp
qed

section \<open>Extraction and validation of a backend response\<close>

lemma jsonMatch_span:
  assumes "CHR ''{'' \<notin> set pre" and "CHR ''}'' \<notin> set post"
  shows "jsonMatch (pre @ CHR ''{'' # mid @ CHR ''}'' # post) = Some (CHR ''{'' # mid @ [CHR ''}''])"
proof -
  have first: "dropWhile (\<lambda>c. c \<noteq> CHR ''{'') (pre @ CHR ''{'' # mid @ CHR ''}'' # post)
                 = CHR ''{'' # mid @ CHR ''}'' # post"
    using assms(1) by (subst dropWhile_append2) auto
  have "dropWhile (\<lambda>c. c \<noteq> CHR ''}'') (rev post @ CHR ''}'' # rev mid) = CHR ''}'' # rev mid"
    using assms(2) by (subst dropWhile_append2) auto
  then have last: "dropWhile (\<lambda>c. c \<noteq> CHR ''}'') (rev (mid @ CHR ''}'' # post))
                     = CHR ''}'' # rev mid"
    by simp
  show ?thesis
    unfolding jsonMatch_def first using last by simp
qed

lemma jsonMatch_None:
  "jsonMatch raw = None \<longleftrightarrow> CHR ''}'' \<notin> set (dropWhile (\<lambda>c. c \<noteq> CHR ''{'') raw)"
proof (cases "dropWhile (\<lambda>c. c \<noteq> CHR ''{'') raw")
  case Nil
  then show ?thesis unfolding jsonMatch_def by (simp del: dropWhile_eq_Nil_conv)
next
  case (Cons b rest)
  then have b: "b = CHR ''{''"
    using hd_dropWhile [of "\<lambda>c. c \<noteq> CHR ''{''" raw] by auto
  have none: "jsonMatch raw = None \<longleftrightarrow> dropWhile (\<lambda>c. c \<noteq> CHR ''}'') (rev rest) = []"
    unfolding jsonMatch_def Cons by (simp split: list.splits del: dropWhile_eq_Nil_conv)
  have "dropWhile (\<lambda>c. c \<noteq> CHR ''}'') (rev rest) = [] \<longleftrightarrow> CHR ''}'' \<notin> set rest"
    by auto
  with none show ?thesis
    unfolding Cons b by simp
qed

lemma parseJudgmentResponse_succeeds:
  "(\<exists>jm. parseJudgmentResponse rt raw = Inr jm)
     \<longleftrightarrow> (\<exists>m parsed. jsonMatch raw = Some m \<and> JSON_parse rt m = Inr parsed
                        \<and> validateJudgment parsed)"
  by (auto simp: parseJudgmentResponse_def parseJudgment_try_def
           split: option.splits sum.splits if_splits)

lemma parseArgumentResponse_succeeds:
  "(\<exists>ar. parseArgumentResponse rt raw = Inr ar)
     \<longleftrightarrow> (\<exists>m parsed. jsonMatch raw = Some m \<and> JSON_parse rt m = Inr parsed
                        \<and> validateArgument parsed)"
  by (auto simp: parseArgumentResponse_def parseArgument_try_def
           split: option.splits sum.splits if_splits)

lemma validate_nullable:
  "(case v of None \<Rightarrow> True | Some j \<Rightarrow> validate (Nullable sc) j)
     = optional_field (validate sc) v"
  by (simp add: optional_field_def split: option.splits)

lemma validate_shapes:
  "validate TString = is_string"
  "validate TBoolean = is_boolean"
  "validate (TArray TString) = is_string_list"
  "validate (TNumber lo hi) = is_number_within lo hi"
  by (auto simp: fun_eq_iff is_string_def is_boolean_def is_string_list_def
        is_number_within_def list_all_iff split: json.splits)



lemma validate_object_open:
  "validate (TObject props req True) (JObject kvs)
     = (list_all (\<lambda>k. map_of kvs k \<noteq> None) req
        \<and> list_all (\<lambda>p. case map_of kvs (fst p) of
                            None \<Rightarrow> True
                          | Some v \<Rightarrow> validate (snd p) v) props)"
  by simp

lemma validateJudgment_shape: "validateJudgment parsed = spec_judgment_shape parsed"
proof (cases parsed)
  case (JObject kvs)
  show ?thesis
    unfolding JObject validateJudgment_def judgmentSchema_def spec_judgment_shape_def
      validate_object_open
    by (simp only: list.pred_inject fst_conv snd_conv validate_nullable)
       (simp add: validate_shapes required_field_def split: option.splits)
qed (simp_all add: validateJudgment_def judgmentSchema_def spec_judgment_shape_def)

lemma validateArgument_shape: "validateArgument parsed = spec_argument_shape parsed"
proof (cases parsed)
  case (JObject kvs)
  show ?thesis
    unfolding JObject validateArgument_def argumentSchema_def spec_argument_shape_def
      validate_object_open
    by (simp only: list.pred_inject fst_conv snd_conv validate_nullable)
       (simp add: validate_shapes required_field_def split: option.splits)
qed (simp_all add: validateArgument_def argumentSchema_def spec_argument_shape_def)


lemma map_of_extra: "k' \<noteq> k \<Longrightarrow> map_of ((k, v) # kvs) k' = map_of kvs k'"
  by simp

lemma extra_field_judgment:
  assumes "k \<notin> {''verdict'', ''reasoning'', ''legalBasis'', ''confidence''}"
  shows "validateJudgment (JObject ((k, v) # kvs)) = validateJudgment (JObject kvs)"
    and "judgment_from (JObject ((k, v) # kvs)) = judgment_from (JObject kvs)"
proof -
  from assms have eqs:
    "map_of ((k, v) # kvs) ''verdict'' = map_of kvs ''verdict''"
    "map_of ((k, v) # kvs) ''reasoning'' = map_of kvs ''reasoning''"
    "map_of ((k, v) # kvs) ''legalBasis'' = map_of kvs ''legalBasis''"
    "map_of ((k, v) # kvs) ''confidence'' = map_of kvs ''confidence''"
    by (auto intro!: map_of_extra)
  show "validateJudgment (JObject ((k, v) # kvs)) = validateJudgment (JObject kvs)"
    unfolding validateJudgment_shape spec_judgment_shape_def
    by (simp only: json.case eqs)
  show "judgment_from (JObject ((k, v) # kvs)) = judgment_from (JObject kvs)"
    unfolding judgment_from_def property_def
    by (simp only: json.case eqs)
qed

lemma extra_field_argument:
  assumes "k \<notin> {''response'', ''strengthens'', ''weakens'', ''uncertaintyRemains'',
                 ''reconsidered'', ''updatedReasoning'', ''provisionalNote'', ''confidence''}"
  shows "validateArgument (JObject ((k, v) # kvs)) = validateArgument (JObject kvs)"
    and "argumentResponse_from (JObject ((k, v) # kvs)) = argumentResponse_from (JObject kvs)"
proof -
  from assms have eqs:
    "map_of ((k, v) # kvs) ''response'' = map_of kvs ''response''"
    "map_of ((k, v) # kvs) ''strengthens'' = map_of kvs ''strengthens''"
    "map_of ((k, v) # kvs) ''weakens'' = map_of kvs ''weakens''"
    "map_of ((k, v) # kvs) ''uncertaintyRemains'' = map_of kvs ''uncertaintyRemains''"
    "map_of ((k, v) # kvs) ''reconsidered'' = map_of kvs ''reconsidered''"
    "map_of ((k, v) # kvs) ''updatedReasoning'' = map_of kvs ''updatedReasoning''"
    "map_of ((k, v) # kvs) ''provisionalNote'' = map_of kvs ''provisionalNote''"
    "map_of ((k, v) # kvs) ''confidence'' = map_of kvs ''confidence''"
    by (auto intro!: map_of_extra)
  show "validateArgument (JObject ((k, v) # kvs)) = validateArgument (JObject kvs)"
    unfolding validateArgument_shape spec_argument_shape_def
    by (simp only: json.case eqs)
  show "argumentResponse_from (JObject ((k, v) # kvs)) = argumentResponse_from (JObject kvs)"
    unfolding argumentResponse_from_def property_def
    by (simp only: json.case eqs)
qed

text \<open>
  C6, as stated, fails on the extraction: the match is greedy.  On a response
  with a second brace pair in the prose after the JSON object, the span the
  parser takes runs to the last \<open>}\<close> of the text, not to the end of the first
  top-level span, and the response is rejected although its first span alone
  parses and validates.
\<close>

theorem greedy_match_is_not_first_span:
  "jsonMatch two_span_text = Some two_span_text
   \<and> spec_first_top_level_span two_span_text = Some judgment_json
   \<and> parseJudgmentResponse example_runtime two_span_text
       = Inl ''Failed to parse judgment response: Unexpected token''
   \<and> parseJudgmentResponse example_runtime judgment_json
       = Inr \<lparr>verdict = ''Side A prevails'', reasoning = ''The receipt'', legalBasis = [],
              confidence = 50\<rparr>"
  by code_simp

text \<open>
  C6, amended.  For every backend response string, parsing takes the span
  from the first \<open>{\<close> to the last \<open>}\<close> of the text (none when no \<open>}\<close> follows the
  first \<open>{\<close>), and succeeds exactly when \<open>JSON.parse\<close> accepts that span and the
  value satisfies the schema of its kind: for a judgment, an object whose
  \<open>verdict\<close> and \<open>reasoning\<close> are strings, whose \<open>legalBasis\<close> is absent, null or
  a list of strings, and whose \<open>confidence\<close> is absent, null or a number from 0
  to 100; for an argument evaluation, an object whose \<open>response\<close> is a string
  and whose other seven fields are absent, null or of their type.  A field of
  any other name changes neither the verdict of the validation nor the value
  returned.
\<close>

theorem response_parsing:
  "(CHR ''{'' \<notin> set pre \<and> CHR ''}'' \<notin> set post \<longrightarrow>
      jsonMatch (pre @ CHR ''{'' # mid @ CHR ''}'' # post) = Some (CHR ''{'' # mid @ [CHR ''}'']))
   \<and> (jsonMatch raw = None
        \<longleftrightarrow> CHR ''}'' \<notin> set (dropWhile (\<lambda>c. c \<noteq> CHR ''{'') raw))
   \<and> ((\<exists>jm. parseJudgmentResponse rt raw = Inr jm)
        \<longleftrightarrow> (\<exists>m parsed. jsonMatch raw = Some m \<and> JSON_parse rt m = Inr parsed
                          \<and> validateJudgment parsed))
   \<and> ((\<exists>ar. parseArgumentResponse rt raw = Inr ar)
        \<longleftrightarrow> (\<exists>m parsed. jsonMatch raw = Some m \<and> JSON_parse rt m = Inr parsed
                          \<and> validateArgument parsed))
   \<and> validateJudgment parsed = spec_judgment_shape parsed
   \<and> validateArgument parsed = spec_argument_shape parsed
   \<and> (k \<notin> {''verdict'', ''reasoning'', ''legalBasis'', ''confidence''} \<longrightarrow>
        validateJudgment (JObject ((k, v) # kvs)) = validateJudgment (JObject kvs)
        \<and> judgment_from (JObject ((k, v) # kvs)) = judgment_from (JObject kvs))
   \<and> (k' \<notin> {''response'', ''strengthens'', ''weakens'', ''uncertaintyRemains'',
               ''reconsidered'', ''updatedReasoning'', ''provisionalNote'', ''confidence''} \<longrightarrow>
        validateArgument (JObject ((k', v) # kvs)) = validateArgument (JObject kvs)
        \<and> argumentResponse_from (JObject ((k', v) # kvs))
            = argumentResponse_from (JObject kvs))"
proof (intro conjI impI)
  show "jsonMatch (pre @ CHR ''{'' # mid @ CHR ''}'' # post) = Some (CHR ''{'' # mid @ [CHR ''}''])"
    if "CHR ''{'' \<notin> set pre \<and> CHR ''}'' \<notin> set post"
    using that by (simp add: jsonMatch_span)
qed (rule jsonMatch_None parseJudgmentResponse_succeeds parseArgumentResponse_succeeds
       validateJudgment_shape validateArgument_shape
     | erule extra_field_judgment extra_field_argument)+

theorem response_parsing_witness:
  "jsonMatch judgment_text = Some judgment_json
   \<and> (\<exists>jm. parseJudgmentResponse example_runtime judgment_text = Inr jm)
   \<and> validateJudgment judgment_value
   \<and> validateJudgment
        (JObject [(''verdict'', JString ''Side A prevails''),
                  (''reasoning'', JString ''The receipt''), (''confidence'', JNumber 0)])
   \<and> validateArgument
        (JObject [(''draft'', JBool True), (''response'', JString ''That is a good point'')])"
proof -
  let ?pre = "''Here is my assessment: ''" and ?post = "'' I hope this helps.''"
  let ?core = "[(''verdict'', JString ''Side A prevails''),
                (''reasoning'', JString ''The receipt''), (''confidence'', JNumber 0)]"
  let ?plain = "[(''response'', JString ''That is a good point'')]"
  note inst = response_parsing [where pre = ?pre and post = ?post and mid = judgment_body
      and raw = judgment_text and rt = example_runtime and parsed = judgment_value
      and k = "''draft''" and k' = "''draft''" and v = "JBool True"]
  note extraction = inst [where kvs = ?core, THEN conjunct1]
  note success = inst [where kvs = ?core, THEN conjunct2, THEN conjunct2, THEN conjunct1]
  note schema = inst [where kvs = ?core, THEN conjunct2, THEN conjunct2, THEN conjunct2,
      THEN conjunct2, THEN conjunct1]
  note extra = inst [where kvs = ?core, THEN conjunct2, THEN conjunct2, THEN conjunct2,
      THEN conjunct2, THEN conjunct2, THEN conjunct2, THEN conjunct1]
  note extra' = inst [where kvs = ?plain, THEN conjunct2, THEN conjunct2, THEN conjunct2,
      THEN conjunct2, THEN conjunct2, THEN conjunct2, THEN conjunct2]
  have decomposed: "judgment_text = ?pre @ CHR ''{'' # judgment_body @ CHR ''}'' # ?post"
    by (simp add: judgment_text_def judgment_json_def)
  have braces: "CHR ''{'' \<notin> set ?pre \<and> CHR ''}'' \<notin> set ?post"
    by simp
  have json: "judgment_json = CHR ''{'' # judgment_body @ [CHR ''}'']"
    by (simp add: judgment_json_def)
  have m: "jsonMatch judgment_text = Some judgment_json"
    unfolding decomposed json by (rule extraction [THEN mp, OF braces])
  have p: "JSON_parse example_runtime judgment_json = Inr judgment_value"
    by (simp add: example_runtime_def example_parse_def)
  have shape: "spec_judgment_shape judgment_value"
    by code_simp
  have v: "validateJudgment judgment_value"
    unfolding schema by (rule shape)
  have ok: "\<exists>jm. parseJudgmentResponse example_runtime judgment_text = Inr jm"
    unfolding success using m p v by blast
  have fresh: "''draft'' \<notin> {''verdict'', ''reasoning'', ''legalBasis'', ''confidence''}"
    by simp
  have core: "validateJudgment (JObject ?core)"
    using extra [THEN mp, OF fresh, THEN conjunct1] v
    unfolding judgment_value_def by (rule subst)
  have fresh': "''draft'' \<notin> {''response'', ''strengthens'', ''weakens'',
      ''uncertaintyRemains'', ''reconsidered'', ''updatedReasoning'', ''provisionalNote'',
      ''confidence''}"
    by simp
  have plain: "validateArgument (JObject ?plain)"
    by code_simp
  have with_extra: "validateArgument (JObject ((''draft'', JBool True) # ?plain))"
    using extra' [THEN mp, OF fresh', THEN conjunct1, symmetric] plain by (rule subst)
  from m ok v core with_extra show ?thesis
    by (intro conjI)
qed

section \<open>Defaults of the parsers\<close>

lemma parseJudgmentResponse_value:
  assumes "parseJudgmentResponse rt raw = Inr jm"
    and "jsonMatch raw = Some m" and "JSON_parse rt m = Inr parsed"
  shows "jm = judgment_from parsed"
  using assms
  by (auto simp: parseJudgmentResponse_def parseJudgment_try_def
           split: sum.splits if_splits)

lemma parseArgumentResponse_value:
  assumes "parseArgumentResponse rt raw = Inr ar"
    and "jsonMatch raw = Some m" and "JSON_parse rt m = Inr parsed"
  shows "ar = argumentResponse_from parsed"
  using assms
  by (auto simp: parseArgumentResponse_def parseArgument_try_def
           split: sum.splits if_splits)

text \<open>
  C10.  When a judgment or an argument evaluation parses and validates, the
  value returned has the empty list for an absent \<open>legalBasis\<close>, 50 for an
  absent \<open>confidence\<close>, and false for an absent \<open>reconsidered\<close>; a \<open>confidence\<close>
  of exactly 0 is replaced by 50 as well, and any other number is kept.
\<close>

theorem parser_defaults:
  "(parseJudgmentResponse rt raw = Inr jm \<and> jsonMatch raw = Some m
      \<and> JSON_parse rt m = Inr parsed \<longrightarrow>
      (property parsed ''legalBasis'' = None \<longrightarrow> legalBasis jm = [])
      \<and> (property parsed ''confidence'' = None \<longrightarrow> confidence jm = 50)
      \<and> (property parsed ''confidence'' = Some (JNumber 0) \<longrightarrow> confidence jm = 50)
      \<and> (\<forall>x. property parsed ''confidence'' = Some (JNumber x) \<and> x \<noteq> 0 \<longrightarrow>
             confidence jm = x))
   \<and> (parseArgumentResponse rt raw = Inr ar \<and> jsonMatch raw = Some m
      \<and> JSON_parse rt m = Inr parsed \<longrightarrow>
      (property parsed ''reconsidered'' = None \<longrightarrow> reconsidered ar = False)
      \<and> (property parsed ''confidence'' = None \<longrightarrow> ar_confidence ar = 50)
      \<and> (property parsed ''confidence'' = Some (JNumber 0) \<longrightarrow> ar_confidence ar = 50)
      \<and> (\<forall>x. property parsed ''confidence'' = Some (JNumber x) \<and> x \<noteq> 0 \<longrightarrow>
             ar_confidence ar = x))"
proof (intro conjI impI)
  assume "parseJudgmentResponse rt raw = Inr jm \<and> jsonMatch raw = Some m
      \<and> JSON_parse rt m = Inr parsed"
  then have jm: "jm = judgment_from parsed"
    using parseJudgmentResponse_value by blast
  show "property parsed ''legalBasis'' = None \<Longrightarrow> legalBasis jm = []"
    by (simp add: jm judgment_from_def truthy_def)
  show "property parsed ''confidence'' = None \<Longrightarrow> confidence jm = 50"
    by (simp add: jm judgment_from_def truthy_def)
  show "property parsed ''confidence'' = Some (JNumber 0) \<Longrightarrow> confidence jm = 50"
    by (simp add: jm judgment_from_def truthy_def)
  show "\<forall>x. property parsed ''confidence'' = Some (JNumber x) \<and> x \<noteq> 0 \<longrightarrow> confidence jm = x"
    by (simp add: jm judgment_from_def truthy_def as_number_def)
next
  assume "parseArgumentResponse rt raw = Inr ar \<and> jsonMatch raw = Some m
      \<and> JSON_parse rt m = Inr parsed"
  then have ar: "ar = argumentResponse_from parsed"
    using parseArgumentResponse_value by blast
  show "property parsed ''reconsidered'' = None \<Longrightarrow> reconsidered ar = False"
    by (simp add: ar argumentResponse_from_def truthy_def)
  show "property parsed ''confidence'' = None \<Longrightarrow> ar_confidence ar = 50"
    by (simp add: ar argumentResponse_from_def truthy_def)
  show "property parsed ''confidence'' = Some (JNumber 0) \<Longrightarrow> ar_confidence ar = 50"
    by (simp add: ar argumentResponse_from_def truthy_def)
  show "\<forall>x. property parsed ''confidence'' = Some (JNumber x) \<and> x \<noteq> 0 \<longrightarrow> ar_confidence ar = x"
    by (simp add: ar argumentResponse_from_def truthy_def as_number_def)
qed

theorem parser_defaults_witness:
  "parseJudgmentResponse example_runtime judgment_text
     = Inr \<lparr>verdict = ''Side A prevails'', reasoning = ''The receipt'', legalBasis = [],
            confidence = 50\<rparr>
   \<and> property judgment_value ''legalBasis'' = None
   \<and> property judgment_value ''confidence'' = Some (JNumber 0)
   \<and> parseArgumentResponse example_runtime evaluation_json
       = Inr (argumentResponse_from evaluation_value)
   \<and> property evaluation_value ''reconsidered'' = None
   \<and> property evaluation_value ''confidence'' = None
   \<and> reconsidered (argumentResponse_from evaluation_value) = False
   \<and> ar_confidence (argumentResponse_from evaluation_value) = 50"
proof -
  let ?jm = "\<lparr>verdict = ''Side A prevails'', reasoning = ''The receipt'', legalBasis = [],
              confidence = 50\<rparr>"
  have parsed: "parseJudgmentResponse example_runtime judgment_text = Inr ?jm
      \<and> jsonMatch judgment_text = Some judgment_json
      \<and> JSON_parse example_runtime judgment_json = Inr judgment_value"
    by code_simp
  have absent: "property judgment_value ''legalBasis'' = None"
    and zero: "property judgment_value ''confidence'' = Some (JNumber 0)"
    by code_simp+
  have parsed': "parseArgumentResponse example_runtime evaluation_json
        = Inr (argumentResponse_from evaluation_value)
      \<and> jsonMatch evaluation_json = Some evaluation_json
      \<and> JSON_parse example_runtime evaluation_json = Inr evaluation_value"
    by code_simp
  have absent': "property evaluation_value ''reconsidered'' = None"
    and absent'': "property evaluation_value ''confidence'' = None"
    by code_simp+
  note j = parser_defaults [where rt = example_runtime and raw = judgment_text
      and jm = ?jm and m = judgment_json and parsed = judgment_value, THEN conjunct1,
      THEN mp, OF parsed]
  note a = parser_defaults [where rt = example_runtime and raw = evaluation_json
      and ar = "argumentResponse_from evaluation_value" and m = evaluation_json
      and parsed = evaluation_value, THEN conjunct2, THEN mp, OF parsed']
  from j absent zero have "legalBasis ?jm = [] \<and> confidence ?jm = 50"
    by blast
  moreover from a absent' absent''
  have "reconsidered (argumentResponse_from evaluation_value) = False
      \<and> ar_confidence (argumentResponse_from evaluation_value) = 50"
    by blast
  ultimately show ?thesis
    using parsed parsed' absent zero absent' absent'' by blast
qed


section \<open>The reply to an argument submission\<close>

text \<open>
  The count in the reply: a submission answered 200 reports five minus the
  number of arguments the case then has.
\<close>

lemma remaining_arguments:
  assumes "fst (post_arguments digest s caseId sd arg llm aid jid)
             = (200, ArgumentResponseBody r n)"
  shows "llm = Inr r"
    and "n = 5 - (int (getArgumentCount (db s) caseId) + 1)"
    and "getArgumentCount (db (snd (post_arguments digest s caseId sd arg llm aid jid))) caseId
           = getArgumentCount (db s) caseId + 1"
  using assms
  by (auto simp: post_arguments_def Let_def case_prod_beta MAX_ARGUMENTS_def
        getArgumentCount_def arguments_of_def saveArgument_def saveJudgment_def
        split: if_splits option.splits sum.splits)

text \<open>
  Five submissions to one case take the sequence numbers 1 to 5 in the order
  of their arrival.
\<close>

lemma five_submissions_numbered:
  "map a_sequence_number (getArguments (db (run id init five_submissions)) ''case-1'')
     = [1, 2, 3, 4, 5]"
  by code_simp

text \<open>
  C7.  The reply to a successful submission does not contain \<open>strengthens\<close>,
  \<open>weakens\<close> and \<open>uncertaintyRemains\<close>.  The backend returns an evaluation with
  all of them (and a provisional note); the schema accepts it;
  \<open>parseArgumentResponse\<close> copies \<open>response\<close>, \<open>reconsidered\<close>, \<open>updatedReasoning\<close>
  and \<open>confidence\<close> only.  The reply of the handler and the stored row have the
  three fields undefined and null; \<open>remainingArguments\<close> is 4, as it should.
\<close>

theorem evaluation_fields_dropped:
  "validateArgument evaluation_value
   \<and> processArgument example_runtime (backend_returning evaluation_json)
       = ([Call 1],
          Inr \<lparr>response = ''That is a good point'', strengthens = None, weakens = None,
               uncertaintyRemains = None, reconsidered = False, updatedReasoning = None,
               provisionalNote = None, ar_confidence = 50\<rparr>)
   \<and> fst (step id (run id init [example_create, example_generate])
             (SubmitArgument ''case-1'' (Some ''A'')
                (Some ''Bank transfer receipt proves loan terms'')
                (snd (processArgument example_runtime (backend_returning evaluation_json)))
                ''a1'' ''judgment-2''))
       = (200,
          ArgumentResponseBody
            \<lparr>response = ''That is a good point'', strengthens = None, weakens = None,
             uncertaintyRemains = None, reconsidered = False, updatedReasoning = None,
             provisionalNote = None, ar_confidence = 50\<rparr> 4)
   \<and> map (\<lambda>a. (a_strengthens a, a_weakens a, a_uncertainty_remains a))
        (getArguments
           (db (run id init
                  [example_create, example_generate,
                   SubmitArgument ''case-1'' (Some ''A'')
                     (Some ''Bank transfer receipt proves loan terms'')
                     (snd (processArgument example_runtime (backend_returning evaluation_json)))
                     ''a1'' ''judgment-2'']))
           ''case-1'')
       = [(None, None, None)]"
  by code_simp

section \<open>Retries of the generation calls\<close>

lemma str_includes_infix: "str_includes (pre @ sub @ post) sub"
proof (induction pre)
  case Nil
  have prefix: "take (length sub) (sub @ post) = sub" by simp
  show ?case
  proof (cases "sub @ post")
    case Nil
    then show ?thesis by simp
  next
    case (Cons a rest)
    with prefix show ?thesis by simp
  qed
next
  case (Cons c pre)
  then show ?case by simp
qed

lemma parse_failure_mentions_parse:
  assumes "parseJudgmentResponse rt t = Inl e"
  shows "str_includes e ''parse''"
proof -
  from assms obtain msg where "e = ''Failed to parse judgment response: '' @ msg"
    by (auto simp: parseJudgmentResponse_def split: sum.splits)
  then have "e = ''Failed to '' @ ''parse'' @ ('' judgment response: '' @ msg)"
    by simp
  then show ?thesis
    using str_includes_infix by metis
qed

lemma generateJudgment_first:
  assumes "judgment_attempt rt backend 1 = Inr jm"
  shows "generateJudgment rt backend = ([Call 1], Inr jm)"
  using assms by (simp add: generateJudgment_def)

lemma generateJudgment_second:
  assumes "judgment_attempt rt backend 1 = Inl e1"
  shows "generateJudgment rt backend
    = (Call 1 # (if str_includes e1 ''parse'' then [Sleep 1000] else []) @ [Call 2],
       case judgment_attempt rt backend 2 of
         Inr jm \<Rightarrow> Inr jm
       | Inl e2 \<Rightarrow> Inl (''Failed to generate judgment after 2 attempts: '' @ e2))"
  using assms
  by (simp add: generateJudgment_def last_message_def Let_def numeral_2_eq_2
        split: sum.splits)

lemma generateFinalVerdict_first:
  assumes "judgment_attempt rt backend 1 = Inr jm"
  shows "generateFinalVerdict rt backend = ([Call 1], Inr jm)"
  using assms by (simp add: generateFinalVerdict_def)

lemma generateFinalVerdict_second:
  assumes "judgment_attempt rt backend 1 = Inl e1"
  shows "generateFinalVerdict rt backend
    = ([Call 1, Sleep 1000, Call 2],
       case judgment_attempt rt backend 2 of
         Inr jm \<Rightarrow> Inr jm
       | Inl e2 \<Rightarrow> Inl (''Failed to generate final verdict after 2 attempts: '' @ e2))"
  using assms
  by (simp add: generateFinalVerdict_def last_message_def Let_def numeral_2_eq_2
        split: sum.splits)

lemma failed_generation_writes_nothing:
  "snd (post_judgment digest s caseId (Inl e) jid) = s"
  "snd (post_arguments digest s caseId sd arg (Inl e) aid jid) = s"
  "snd (post_final_verdict digest s caseId (Inl e) jid) = s"
  by (simp_all add: post_judgment_def post_arguments_def post_final_verdict_def Let_def
        split: sum.splits option.splits)


text \<open>
  C5, as stated, fails.  \<open>processArgument\<close> calls the backend once: when that
  call fails, also when a second one would succeed, it throws the fixed
  message \<open>Failed to process argument\<close> without the underlying one.  And
  \<open>generateJudgment\<close> waits between its attempts only after a failure whose
  message contains \<open>parse\<close>: after an overload error it retries at once.
\<close>

theorem argument_evaluation_is_not_retried:
  "processArgument example_runtime
       (backend_failing_once ''503 Service Unavailable'' evaluation_json)
     = ([Call 1], Inl ''Failed to process argument'')
   \<and> generateJudgment example_runtime (backend_failing ''503 Service Unavailable'')
       = ([Call 1, Call 2],
          Inl ''Failed to generate judgment after 2 attempts: 503 Service Unavailable'')"
  by code_simp

text \<open>
  C5, amended.  The generation of the initial judgment and of the final
  verdict make at most two attempts, each one backend call followed by
  parsing.  A successful attempt returns at once.  After a failed first
  attempt the final verdict waits 1000 ms and the initial judgment waits
  1000 ms when the message of the failure contains \<open>parse\<close>, as the message of
  every parsing or validation failure does, and does not wait otherwise; then
  the second attempt runs.  When both fail, the error thrown is the fixed
  prefix with the count 2 followed by the message of the second failure.  A
  handler whose generation call fails leaves the state of the server as it
  was.
\<close>

theorem generation_retries:
  "(judgment_attempt rt backend 1 = Inr jm \<longrightarrow>
      generateJudgment rt backend = ([Call 1], Inr jm)
      \<and> generateFinalVerdict rt backend = ([Call 1], Inr jm))
   \<and> (judgment_attempt rt backend 1 = Inl first_error \<and> judgment_attempt rt backend 2 = Inr jm \<longrightarrow>
      generateJudgment rt backend
        = (Call 1 # (if str_includes first_error ''parse'' then [Sleep 1000] else []) @ [Call 2], Inr jm)
      \<and> generateFinalVerdict rt backend = ([Call 1, Sleep 1000, Call 2], Inr jm))
   \<and> (judgment_attempt rt backend 1 = Inl first_error \<and> judgment_attempt rt backend 2 = Inl second_error \<longrightarrow>
      generateJudgment rt backend
        = (Call 1 # (if str_includes first_error ''parse'' then [Sleep 1000] else []) @ [Call 2],
           Inl (''Failed to generate judgment after 2 attempts: '' @ second_error))
      \<and> generateFinalVerdict rt backend
        = ([Call 1, Sleep 1000, Call 2],
           Inl (''Failed to generate final verdict after 2 attempts: '' @ second_error)))
   \<and> (backend n = Inr t \<and> judgment_attempt rt backend n = Inl e \<longrightarrow> str_includes e ''parse'')
   \<and> snd (post_judgment digest s caseId (Inl e) jid) = s
   \<and> snd (post_arguments digest s caseId sd arg (Inl e) aid jid) = s
   \<and> snd (post_final_verdict digest s caseId (Inl e) jid) = s"
proof (intro conjI impI)
  show "str_includes e ''parse''"
    if "backend n = Inr t \<and> judgment_attempt rt backend n = Inl e"
    using that parse_failure_mentions_parse [of rt t e]
    by (auto simp: judgment_attempt_def)
qed (simp_all add: generateJudgment_first generateJudgment_second generateFinalVerdict_first
       generateFinalVerdict_second failed_generation_writes_nothing)

theorem generation_retries_witness:
  "generateJudgment example_runtime (backend_returning judgment_text)
     = ([Call 1], Inr (judgment_from judgment_value))
   \<and> generateJudgment example_runtime
        (backend_failing_once ''503 Service Unavailable'' judgment_text)
       = ([Call 1, Call 2], Inr (judgment_from judgment_value))
   \<and> generateFinalVerdict example_runtime
        (backend_failing_once ''503 Service Unavailable'' judgment_text)
       = ([Call 1, Sleep 1000, Call 2], Inr (judgment_from judgment_value))
   \<and> generateJudgment example_runtime (backend_returning ''no json here'')
       = ([Call 1, Sleep 1000, Call 2],
          Inl (''Failed to generate judgment after 2 attempts: ''
                 @ ''Failed to parse judgment response: No JSON found in response''))"
proof -
  let ?jm = "judgment_from judgment_value"
  let ?flaky = "backend_failing_once ''503 Service Unavailable'' judgment_text"
  let ?bad = "backend_returning ''no json here''"
  let ?e = "''Failed to parse judgment response: No JSON found in response''"
  have first: "judgment_attempt example_runtime (backend_returning judgment_text) 1 = Inr ?jm"
    by code_simp
  have second: "judgment_attempt example_runtime ?flaky 1 = Inl ''503 Service Unavailable''
      \<and> judgment_attempt example_runtime ?flaky 2 = Inr ?jm"
    by code_simp
  have quiet: "\<not> str_includes ''503 Service Unavailable'' ''parse''"
    by code_simp
  have both: "judgment_attempt example_runtime ?bad 1 = Inl ?e
      \<and> judgment_attempt example_runtime ?bad 2 = Inl ?e"
    by code_simp
  have returned: "?bad 1 = Inr ''no json here'' \<and> judgment_attempt example_runtime ?bad 1 = Inl ?e"
    by code_simp
  note a = generation_retries [where rt = example_runtime
      and backend = "backend_returning judgment_text" and jm = ?jm,
      THEN conjunct1, THEN mp, OF first, THEN conjunct1]
  note b = generation_retries [where rt = example_runtime and backend = ?flaky
      and first_error = "''503 Service Unavailable''" and jm = ?jm,
      THEN conjunct2, THEN conjunct1, THEN mp, OF second]
  note c = generation_retries [where rt = example_runtime and backend = ?bad
      and first_error = ?e and second_error = ?e, THEN conjunct2, THEN conjunct2, THEN conjunct1, THEN mp,
      OF both, THEN conjunct1]
  note d = generation_retries [where rt = example_runtime and backend = ?bad
      and n = 1 and t = "''no json here''" and e = ?e,
      THEN conjunct2, THEN conjunct2, THEN conjunct2, THEN conjunct1, THEN mp, OF returned]
  from b quiet have b': "generateJudgment example_runtime ?flaky = ([Call 1, Call 2], Inr ?jm)
      \<and> generateFinalVerdict example_runtime ?flaky = ([Call 1, Sleep 1000, Call 2], Inr ?jm)"
    by simp
  from c d have c': "generateJudgment example_runtime ?bad
      = ([Call 1, Sleep 1000, Call 2],
         Inl (''Failed to generate judgment after 2 attempts: '' @ ?e))"
    by simp
  from a b' c' show ?thesis by blast
qed

end
